theory Spec2Isabelle
  imports Main
begin

section \<open>Python values and exceptions\<close>

text \<open>
  The program is dynamically typed, so the values its functions receive are modelled by
  one datatype. A dictionary is an association list with string keys; a character stands
  for one code point (below 256), so \<open>length\<close> is Python's \<open>len\<close> on such strings.
  Floats are left out: no function modelled here computes with one.
\<close>

datatype pyval =
    PNone
  | PBool bool
  | PInt int
  | PStr string
  | PList "pyval list"
  | PDict "(string \<times> pyval) list"

type_synonym pydict = "(string \<times> pyval) list"

text \<open>
  The exception classes the code raises, catches or lets through. A botocore
  \<open>ClientError\<close> carries its error code; the classes \<open>client.exceptions.X\<close> are the
  subclasses of \<open>ClientError\<close> selected by the code \<open>X\<close>.
\<close>

datatype exc =
    AttributeError
  | TypeError
  | KeyError
  | ValueError string
  | ResponseError string
  | ClientError string
  | OtherError string

text \<open>How a method ends when it does not return: \<open>sys.exit\<close> or a propagated exception.\<close>

datatype failure = SysExit string | Raised exc

definition newline :: char where
  "newline = CHR 0x0A"

section \<open>The regular expressions of module re\<close>

text \<open>
  The patterns of the source are kept as syntax trees and run by a backtracking matcher
  that follows Python's \<open>re\<close>: alternatives are tried left to right, \<open>*\<close> is greedy,
  \<open>.\<close> matches any character but a newline, \<open>^\<close> matches at the start of the string
  only, and \<open>$\<close> matches at the end of the string and also just before a newline that
  ends the string.
\<close>

datatype regex =
    Lit char
  | Class "(char \<times> char) list"
  | Dot
  | Bol
  | Eol
  | Seq regex regex
  | Alt regex regex
  | Star regex

definition in_range :: "char \<Rightarrow> char \<Rightarrow> char \<Rightarrow> bool" where
  "in_range lo hi c = ((of_char lo :: nat) \<le> of_char c \<and> (of_char c :: nat) \<le> of_char hi)"

definition in_class :: "(char \<times> char) list \<Rightarrow> char \<Rightarrow> bool" where
  "in_class rs c = list_ex (\<lambda>(lo, hi). in_range lo hi c) rs"

text \<open>
  \<open>ends r n s\<close> lists, in the order the backtracking matcher finds them, what is left
  of the suffix \<open>s\<close> after each way \<open>r\<close> matches a prefix of it; \<open>n\<close> is the length of
  the whole subject string, so that \<open>length s = n\<close> means "at the start".
\<close>

function ends :: "regex \<Rightarrow> nat \<Rightarrow> string \<Rightarrow> string list" where
  "ends (Lit c) n s = (case s of [] \<Rightarrow> [] | x # xs \<Rightarrow> if x = c then [xs] else [])"
| "ends (Class rs) n s = (case s of [] \<Rightarrow> [] | x # xs \<Rightarrow> if in_class rs x then [xs] else [])"
| "ends Dot n s = (case s of [] \<Rightarrow> [] | x # xs \<Rightarrow> if x \<noteq> newline then [xs] else [])"
| "ends Bol n s = (if length s = n then [s] else [])"
| "ends Eol n s = (if s = [] \<or> s = [newline] then [s] else [])"
| "ends (Seq a b) n s = concat (map (ends b n) (ends a n s))"
| "ends (Alt a b) n s = ends a n s @ ends b n s"
| "ends (Star r) n s =
     concat (map (\<lambda>t. if length t < length s then ends (Star r) n t else []) (ends r n s)) @ [s]"
  by pat_completeness auto
termination
  by (relation "measures [\<lambda>(r, n, s). size r, \<lambda>(r, n, s). length s]") auto

definition Plus :: "regex \<Rightarrow> regex" where
  "Plus r = Seq r (Star r)"

definition Twice :: "regex \<Rightarrow> regex" where
  "Twice r = Seq r r"

fun Word :: "string \<Rightarrow> regex" where
  "Word [] = Star (Class [])"
| "Word [c] = Lit c"
| "Word (c # cs) = Seq (Lit c) (Word cs)"

definition re_match :: "regex \<Rightarrow> string \<Rightarrow> bool" where
  "re_match p s = (ends p (length s) s \<noteq> [])"

fun search_from :: "regex \<Rightarrow> nat \<Rightarrow> string \<Rightarrow> bool" where
  "search_from p n [] = (ends p n [] \<noteq> [])"
| "search_from p n (x # xs) = (ends p n (x # xs) \<noteq> [] \<or> search_from p n xs)"

definition re_search :: "regex \<Rightarrow> string \<Rightarrow> bool" where
  "re_search p s = search_from p (length s) s"

text \<open>
  \<open>re.sub\<close>: scan from the left; where the pattern matches, emit the replacement and go
  on after the match; elsewhere copy the character. After an empty match the next
  character is copied.
\<close>

function sub_from :: "regex \<Rightarrow> string \<Rightarrow> nat \<Rightarrow> string \<Rightarrow> string" where
  "sub_from p repl n s =
     (case ends p n s of
        [] \<Rightarrow> (case s of [] \<Rightarrow> [] | x # xs \<Rightarrow> x # sub_from p repl n xs)
      | t # _ \<Rightarrow>
          if length t < length s then repl @ sub_from p repl n t
          else (case s of [] \<Rightarrow> repl | x # xs \<Rightarrow> repl @ x # sub_from p repl n xs))"
  by pat_completeness auto
termination
  by (relation "measure (\<lambda>(p, repl, n, s). length s)") auto

definition re_sub :: "regex \<Rightarrow> string \<Rightarrow> string \<Rightarrow> string" where
  "re_sub p repl s = sub_from p repl (length s) s"

section \<open>String helpers of the Python library\<close>

definition is_upper :: "char \<Rightarrow> bool" where
  "is_upper c = in_range CHR ''A'' CHR ''Z'' c"

definition is_lower :: "char \<Rightarrow> bool" where
  "is_lower c = in_range CHR ''a'' CHR ''z'' c"

definition is_digit :: "char \<Rightarrow> bool" where
  "is_digit c = in_range CHR ''0'' CHR ''9'' c"

text \<open>
  \<open>__len__\<close>: strings, lists and dictionaries have it; \<open>None\<close>, booleans and integers
  do not, and asking them for it raises \<open>AttributeError\<close>.
\<close>

fun py_len :: "pyval \<Rightarrow> exc + nat" where
  "py_len (PStr s) = Inr (length s)"
| "py_len (PList xs) = Inr (length xs)"
| "py_len (PDict d) = Inr (length d)"
| "py_len PNone = Inl AttributeError"
| "py_len (PBool b) = Inl AttributeError"
| "py_len (PInt i) = Inl AttributeError"

section \<open>Name validation (aws\_bucket.py, aws\_table.py)\<close>

text \<open>The patterns, as they are written in the source.\<close>

definition re_upper :: regex where
  \<comment> \<open>\<^verbatim>\<open>[A-Z]\<close>\<close>
  "re_upper = Class [(CHR ''A'', CHR ''Z'')]"

definition re_bucket_start :: regex where
  \<comment> \<open>\<^verbatim>\<open>^[a-z0-9]\<close>\<close>
  "re_bucket_start = Seq Bol (Class [(CHR ''a'', CHR ''z''), (CHR ''0'', CHR ''9'')])"

definition re_bucket_double :: regex where
  \<comment> \<open>\<^verbatim>\<open>[-\.]{2}\<close>\<close>
  "re_bucket_double = Twice (Class [(CHR ''-'', CHR ''-''), (CHR ''.'', CHR ''.'')])"

definition re_bucket_chars :: regex where
  \<comment> \<open>\<^verbatim>\<open>^[-a-z0-9\.]*$\<close>\<close>
  "re_bucket_chars =
     Seq Bol (Seq (Star (Class [(CHR ''-'', CHR ''-''), (CHR ''a'', CHR ''z''),
                                (CHR ''0'', CHR ''9''), (CHR ''.'', CHR ''.'')])) Eol)"

definition re_table_start :: regex where
  \<comment> \<open>\<^verbatim>\<open>^[a-zA-Z0-9]\<close>\<close>
  "re_table_start =
     Seq Bol (Class [(CHR ''a'', CHR ''z''), (CHR ''A'', CHR ''Z''), (CHR ''0'', CHR ''9'')])"

definition re_table_double :: regex where
  \<comment> \<open>\<^verbatim>\<open>[-\._]{2}\<close>\<close>
  "re_table_double =
     Twice (Class [(CHR ''-'', CHR ''-''), (CHR ''.'', CHR ''.''), (CHR ''_'', CHR ''_'')])"

definition re_table_chars :: regex where
  \<comment> \<open>\<^verbatim>\<open>^[-a-zA-Z0-9\._]*$\<close>\<close>
  "re_table_chars =
     Seq Bol (Seq (Star (Class [(CHR ''-'', CHR ''-''), (CHR ''a'', CHR ''z''),
                                (CHR ''A'', CHR ''Z''), (CHR ''0'', CHR ''9''),
                                (CHR ''.'', CHR ''.''), (CHR ''_'', CHR ''_'')])) Eol)"

definition re_spaces :: regex where
  \<comment> \<open>\<^verbatim>\<open> +\<close>, which squeezes the indentation of a continued string literal\<close>
  "re_spaces = Plus (Lit CHR '' '')"

text \<open>
  \<open>validate_s3bucket_name\<close>. The first statement builds a \<open>ValueError\<close> for a
  non-string argument but does not raise it, so it has no effect and the length test is
  the first thing that happens to any argument. A list or dictionary of an accepted
  length reaches \<open>re.search\<close>, which raises \<open>TypeError\<close>.
\<close>

definition validate_s3bucket_name :: "pyval \<Rightarrow> exc + (bool \<times> string)" where
  "validate_s3bucket_name bucket_name =
     (case py_len bucket_name of
        Inl e \<Rightarrow> Inl e
      | Inr n \<Rightarrow>
          if n < 3 \<or> n > 63 then Inr (False, ''BucketName should be of length: [3-63]'')
          else (case bucket_name of
                  PStr s \<Rightarrow>
                    if re_search re_upper s
                    then Inr (False, ''BucketName can't contain upper-case characters'')
                    else if \<not> re_match re_bucket_start s
                    then Inr (False, ''BucketName should start with a lowercase letter or number'')
                    else if re_search re_bucket_double s
                    then Inr (False,
                      ''BucketName can't contain two special characters [-, .] in a row'')
                    else if \<not> re_match re_bucket_chars s
                    then Inr (False, re_sub re_spaces '' ''
                      (''BucketName contains invalid character. '' @ replicate 16 CHR '' '' @
                       ''Allowed characters: [a-z, 0-9, '.', '-']''))
                    else Inr (True, ''Success'')
                | _ \<Rightarrow> Inl TypeError))"

text \<open>\<open>validate_name_dynamotable\<close>: the same shape, with 255 - 5 as the upper length.\<close>

definition validate_name_dynamotable :: "pyval \<Rightarrow> exc + (bool \<times> string)" where
  "validate_name_dynamotable table_name =
     (case py_len table_name of
        Inl e \<Rightarrow> Inl e
      | Inr n \<Rightarrow>
          if n < 3 \<or> n > 255 - 5 then Inr (False, ''TableName should be of length: [3-255]'')
          else (case table_name of
                  PStr s \<Rightarrow>
                    if \<not> re_match re_table_start s
                    then Inr (False, ''BucketName should start with a lowercase letter or number'')
                    else if re_search re_table_double s
                    then Inr (False,
                      ''TableName can't contain two special characters [-, ., _] in a row'')
                    else if \<not> re_match re_table_chars s
                    then Inr (False, re_sub re_spaces '' ''
                      (''TableName contains invalid character. '' @ replicate 16 CHR '' '' @
                       ''Allowed characters: [a-z, A-Z, 0-9, '.', '-', '_']''))
                    else Inr (True, ''Success'')
                | _ \<Rightarrow> Inl TypeError))"

text \<open>
  The rules of the two grammars as the specification words them, to be compared with
  what the functions compute.
\<close>

fun no_double_special :: "string \<Rightarrow> string \<Rightarrow> bool" where
  "no_double_special cs (x # y # r) =
     (\<not> (x \<in> set cs \<and> y \<in> set cs) \<and> no_double_special cs (y # r))"
| "no_double_special cs r = True"

definition starts_with :: "(char \<Rightarrow> bool) \<Rightarrow> string \<Rightarrow> bool" where
  "starts_with P s = (case s of [] \<Rightarrow> False | c # r \<Rightarrow> P c)"

definition bucket_char :: "char \<Rightarrow> bool" where
  "bucket_char c = (is_lower c \<or> is_digit c \<or> c = CHR ''.'' \<or> c = CHR ''-'')"

definition table_char :: "char \<Rightarrow> bool" where
  "table_char c =
     (is_upper c \<or> is_lower c \<or> is_digit c \<or> c = CHR ''.'' \<or> c = CHR ''_'' \<or> c = CHR ''-'')"

definition spec_bucket_name :: "string \<Rightarrow> bool" where
  "spec_bucket_name s =
     (3 \<le> length s \<and> length s \<le> 63 \<and> list_all (\<lambda>c. \<not> is_upper c) s \<and>
      starts_with (\<lambda>c. is_lower c \<or> is_digit c) s \<and>
      no_double_special ''-.'' s \<and> list_all bucket_char s)"

definition spec_table_name :: "string \<Rightarrow> bool" where
  "spec_table_name s =
     (3 \<le> length s \<and> length s \<le> 250 \<and>
      starts_with (\<lambda>c. is_upper c \<or> is_lower c \<or> is_digit c) s \<and>
      no_double_special ''-._'' s \<and> list_all table_char s)"

section \<open>Response validation (aws\_base.py)\<close>

text \<open>\<open>str\<close> of an integer, and of a boolean.\<close>

definition digit_char :: "nat \<Rightarrow> char" where
  "digit_char d = char_of (48 + d)"

function str_nat :: "nat \<Rightarrow> string" where
  "str_nat n = (if n < 10 then [digit_char n] else str_nat (n div 10) @ [digit_char (n mod 10)])"
  by pat_completeness auto
termination
  by (relation "measure id") auto

definition str_int :: "int \<Rightarrow> string" where
  "str_int i = (if i < 0 then CHR ''-'' # str_nat (nat (- i)) else str_nat (nat i))"

text \<open>
  \<open>isinstance(v, int)\<close> holds of integers and of booleans, \<open>bool\<close> being a subclass of
  \<open>int\<close> whose values compare as 0 and 1.
\<close>

fun isinstance_int :: "pyval \<Rightarrow> bool" where
  "isinstance_int (PInt i) = True"
| "isinstance_int (PBool b) = True"
| "isinstance_int v = False"

fun int_value :: "pyval \<Rightarrow> int" where
  "int_value (PInt i) = i"
| "int_value (PBool b) = (if b then 1 else 0)"
| "int_value v = 0"

fun py_str_int :: "pyval \<Rightarrow> string" where
  "py_str_int (PBool b) = (if b then ''True'' else ''False'')"
| "py_str_int v = str_int (int_value v)"

text \<open>
  \<open>validate_aws\<close>. The response is asked for \<open>.get\<close>, which only a dictionary has;
  the clients of the source always hand it the dictionary a remote call returned.
\<close>

definition validate_aws :: "pyval \<Rightarrow> int \<Rightarrow> exc + bool" where
  "validate_aws response expect_status_code =
     (case response of
        PDict d \<Rightarrow>
          (case map_of d ''ResponseMetadata'' of
             Some (PDict md) \<Rightarrow>
               (case map_of md ''HTTPStatusCode'' of
                  None \<Rightarrow> Inl (ResponseError ''No HTTPStatusCode received by API'')
                | Some status_code \<Rightarrow>
                    if \<not> isinstance_int status_code
                    then Inl (ResponseError ''No HTTPStatusCode received by API'')
                    else if int_value status_code \<noteq> expect_status_code
                    then Inl (ResponseError (''HTTPStatusCode='' @ py_str_int status_code))
                    else Inr True)
           | _ \<Rightarrow> Inl (ResponseError ''No response received by API''))
      | _ \<Rightarrow> Inl AttributeError)"

text \<open>The conditions of the contract, in the specification's words.\<close>

definition metadata_malformed :: "pydict \<Rightarrow> bool" where
  \<comment> \<open>the metadata field is absent or not a dictionary\<close>
  "metadata_malformed d =
     (case map_of d ''ResponseMetadata'' of Some (PDict md) \<Rightarrow> False | _ \<Rightarrow> True)"

definition status_field :: "pydict \<Rightarrow> pyval option" where
  "status_field d =
     (case map_of d ''ResponseMetadata'' of
        Some (PDict md) \<Rightarrow> map_of md ''HTTPStatusCode'' | _ \<Rightarrow> None)"

definition status_malformed :: "pydict \<Rightarrow> bool" where
  \<comment> \<open>the status-code field is absent or not an integer\<close>
  "status_malformed d = (case status_field d of None \<Rightarrow> True | Some v \<Rightarrow> \<not> isinstance_int v)"

definition status_differs :: "pydict \<Rightarrow> int \<Rightarrow> bool" where
  "status_differs d expect =
     (case status_field d of None \<Rightarrow> False | Some v \<Rightarrow> isinstance_int v \<and> int_value v \<noteq> expect)"

definition is_ResponseError :: "exc + 'a \<Rightarrow> bool" where
  "is_ResponseError r = (case r of Inl (ResponseError m) \<Rightarrow> True | _ \<Rightarrow> False)"

section \<open>Deriving the names from the repository (make\_backend.py)\<close>

text \<open>
  \<open>str.lower\<close> on code points below 256: the ASCII capitals and the Latin-1 capitals
  (0xC0 to 0xDE, the multiplication sign 0xD7 apart) move up by 32.
\<close>

definition lower_char :: "char \<Rightarrow> char" where
  "lower_char c =
     (let k = (of_char c :: nat)
      in if (65 \<le> k \<and> k \<le> 90) \<or> (192 \<le> k \<and> k \<le> 222 \<and> k \<noteq> 215) then char_of (k + 32) else c)"

definition py_lower :: "string \<Rightarrow> string" where
  "py_lower s = map lower_char s"

fun split_on :: "char \<Rightarrow> string \<Rightarrow> string list" where
  "split_on sep [] = [[]]"
| "split_on sep (x # xs) =
     (if x = sep then [] # split_on sep xs
      else (case split_on sep xs of [] \<Rightarrow> [[x]] | w # ws \<Rightarrow> (x # w) # ws))"

fun join :: "string \<Rightarrow> string list \<Rightarrow> string" where
  "join sep [] = []"
| "join sep [x] = x"
| "join sep (x # xs) = x @ sep @ join sep xs"

definition re_uri_vars :: regex where
  \<comment> \<open>\<^verbatim>\<open>.*:\/\/|.*@|:\<close>\<close>
  "re_uri_vars =
     Alt (Seq (Star Dot) (Word ''://'')) (Alt (Seq (Star Dot) (Lit CHR ''@'')) (Lit CHR '':''))"

definition re_dot_git :: regex where
  \<comment> \<open>\<^verbatim>\<open>\.git$\<close>\<close>
  "re_dot_git = Seq (Word ''.git'') Eol"

record git_vars =
  repo_name :: string
  bucket_uri :: string
  branch_name :: string
  table_name :: string

definition giturl_not_found :: string where
  "giturl_not_found =
     re_sub re_spaces '' ''
       (''giturl not found, location searched: '' @ replicate 29 CHR '' '' @
        ''.git/config -> [remote '' @ [CHR 0x22] @ ''origin'' @ [CHR 0x22] @ ''] -> url'')"

text \<open>
  \<open>Backend.source_git\<close>. The two reads of the repository configuration
  (\<open>gitconfig.remote_read\<close> and \<open>gitconfig.current_branch\<close>) are its inputs. The
  indices \<open>[-1]\<close> and \<open>[0]\<close> are taken of the result of \<open>split\<close>, which is never
  empty; \<open>[0:-1]\<close> and \<open>[1:]\<close> are \<open>butlast\<close> and \<open>tl\<close>.
\<close>

definition source_git :: "pyval \<Rightarrow> pyval \<Rightarrow> exc + git_vars" where
  "source_git remote_read current_branch =
     (case remote_read of
        PDict d \<Rightarrow>
          (case map_of d ''origin'' of
             Some (PStr url) \<Rightarrow>
               (let git_url_project = py_lower url;
                    host_path = re_sub re_uri_vars []
                                  (join ''/'' (butlast (split_on CHR ''/'' git_url_project)));
                    git_host = hd (split_on CHR ''/'' host_path);
                    git_path = join ''.'' (tl (split_on CHR ''/'' host_path));
                    repo = re_sub re_dot_git [] (last (split_on CHR ''/'' git_url_project));
                    uri = git_host @ ''/'' @ git_path @ ''/'' @ repo
                in case current_branch of
                     PStr branch \<Rightarrow>
                       Inr \<lparr>repo_name = repo, bucket_uri = uri, branch_name = branch,
                            table_name = ''terraform.'' @ join ''.'' (butlast (split_on CHR ''/'' uri))\<rparr>
                   | _ \<Rightarrow> Inl (ValueError ''gitbranch not of correct format''))
           | _ \<Rightarrow> Inl (ValueError giturl_not_found))
      | _ \<Rightarrow> Inl (ValueError giturl_not_found))"

section \<open>The remote services\<close>

text \<open>
  The object store and the table service are not part of the repository: the code only
  drives them through the boto3 client. They are modelled as the environment of the
  program, a \<open>world\<close> that every client call reads and updates. The world carries

  \<^item> the buckets and the tables that exist remotely;
  \<^item> a script of replies, one consumed by each call, by which the environment may make a
    call fail (raise an exception, or answer with a response of its own choice and do
    nothing) instead of serving it; an empty script serves every call;
  \<^item> the list of calls issued so far;
  \<^item> the region of the session and the clock (\<open>time.time()\<close>, in microseconds).
\<close>

record access_block =
  BlockPublicAcls :: bool
  IgnorePublicAcls :: bool
  BlockPublicPolicy :: bool
  RestrictPublicBuckets :: bool

record bucket =
  in_account :: bool
  location :: string
  tagging :: "(string \<times> string) list"
  public_access :: "access_block option"
  versioning :: bool

record table =
  hash_key :: string
  active :: bool
  items :: "string \<rightharpoonup> pydict"

datatype call =
    HeadBucket string
  | GetBucketTagging string
  | CreateBucket string string
  | PutBucketTagging string "(string \<times> string) list"
  | PutPublicAccessBlock string access_block
  | PutBucketVersioning string bool
  | DescribeTable string
  | CreateTable string string
  | WaitTableExists string
  | GetItem string string
  | PutItem string pydict

fun mutating :: "call \<Rightarrow> bool" where
  "mutating (CreateBucket n r) = True"
| "mutating (PutBucketTagging n ts) = True"
| "mutating (PutPublicAccessBlock n c) = True"
| "mutating (PutBucketVersioning n b) = True"
| "mutating (CreateTable n k) = True"
| "mutating (PutItem n i) = True"
| "mutating c = False"

datatype reply = Served | Throws exc | Responds pydict

record world =
  buckets :: "string \<rightharpoonup> bucket"
  tables :: "string \<rightharpoonup> table"
  script :: "reply list"
  calls :: "call list"
  region :: string
  clock :: nat

type_synonym 'a remote = "world \<Rightarrow> (exc + 'a) \<times> world"

text \<open>One client call: it is logged, and the next reply of the script decides its fate.\<close>

definition issue :: "call \<Rightarrow> world \<Rightarrow> world" where
  "issue c w = w\<lparr>calls := calls w @ [c], script := tl (script w)\<rparr>"

definition client_call :: "call \<Rightarrow> pydict remote \<Rightarrow> pydict remote" where
  "client_call c serve w =
     (case script w of
        [] \<Rightarrow> serve (issue c w)
      | Served # rest \<Rightarrow> serve (issue c w)
      | Throws e # rest \<Rightarrow> (Inl e, issue c w)
      | Responds r # rest \<Rightarrow> (Inr r, issue c w))"

definition response_with :: "int \<Rightarrow> pydict \<Rightarrow> pydict" where
  "response_with code rest =
     (''ResponseMetadata'', PDict [(''HTTPStatusCode'', PInt code)]) # rest"

text \<open>A served call on a bucket: it must exist and be in the caller's account.\<close>

definition on_bucket :: "string \<Rightarrow> (bucket \<Rightarrow> (exc + pydict) \<times> world) \<Rightarrow> world \<Rightarrow> ((exc + pydict) \<times> world)"
  where
  "on_bucket n f w =
     (case buckets w n of
        None \<Rightarrow> (Inl (ClientError ''NoSuchBucket''), w)
      | Some b \<Rightarrow> if in_account b then f b else (Inl (ClientError ''AccessDenied''), w))"

definition client_head_bucket :: "string \<Rightarrow> pydict remote" where
  "client_head_bucket n =
     client_call (HeadBucket n) (\<lambda>w.
       case buckets w n of
         None \<Rightarrow> (Inl (ClientError ''404''), w)
       | Some b \<Rightarrow> if in_account b then (Inr (response_with 200 []), w)
                   else (Inl (ClientError ''403''), w))"

definition tag_dict :: "string \<times> string \<Rightarrow> pyval" where
  "tag_dict t = PDict [(''Key'', PStr (fst t)), (''Value'', PStr (snd t))]"

definition client_get_bucket_tagging :: "string \<Rightarrow> pydict remote" where
  "client_get_bucket_tagging n =
     client_call (GetBucketTagging n) (\<lambda>w.
       on_bucket n (\<lambda>b.
         if tagging b = [] then (Inl (ClientError ''NoSuchTagSet''), w)
         else (Inr (response_with 200 [(''TagSet'', PList (map tag_dict (tagging b)))]), w)) w)"

definition client_create_bucket :: "string \<Rightarrow> string \<Rightarrow> pydict remote" where
  "client_create_bucket n loc =
     client_call (CreateBucket n loc) (\<lambda>w.
       case buckets w n of
         Some b \<Rightarrow> if in_account b then (Inl (ClientError ''BucketAlreadyOwnedByYou''), w)
                   else (Inl (ClientError ''BucketAlreadyExists''), w)
       | None \<Rightarrow>
           (Inr (response_with 200 []),
            w\<lparr>buckets := (buckets w)(n \<mapsto>
                 \<lparr>in_account = True, location = loc, tagging = [],
                  public_access = None, versioning = False\<rparr>)\<rparr>))"

definition client_put_bucket_tagging :: "string \<Rightarrow> (string \<times> string) list \<Rightarrow> pydict remote" where
  "client_put_bucket_tagging n ts =
     client_call (PutBucketTagging n ts) (\<lambda>w.
       on_bucket n (\<lambda>b.
         (Inr (response_with 204 []), w\<lparr>buckets := (buckets w)(n \<mapsto> b\<lparr>tagging := ts\<rparr>)\<rparr>)) w)"

definition client_put_public_access_block :: "string \<Rightarrow> access_block \<Rightarrow> pydict remote" where
  "client_put_public_access_block n cfg =
     client_call (PutPublicAccessBlock n cfg) (\<lambda>w.
       on_bucket n (\<lambda>b.
         (Inr (response_with 200 []),
          w\<lparr>buckets := (buckets w)(n \<mapsto> b\<lparr>public_access := Some cfg\<rparr>)\<rparr>)) w)"

definition client_put_bucket_versioning :: "string \<Rightarrow> bool \<Rightarrow> pydict remote" where
  "client_put_bucket_versioning n enabled =
     client_call (PutBucketVersioning n enabled) (\<lambda>w.
       on_bucket n (\<lambda>b.
         (Inr (response_with 200 []),
          w\<lparr>buckets := (buckets w)(n \<mapsto> b\<lparr>versioning := enabled\<rparr>)\<rparr>)) w)"

text \<open>The table service. Waiting for a table lets the time pass until it is active.\<close>

definition client_describe_table :: "string \<Rightarrow> pydict remote" where
  "client_describe_table n =
     client_call (DescribeTable n) (\<lambda>w.
       case tables w n of
         None \<Rightarrow> (Inl (ClientError ''ResourceNotFoundException''), w)
       | Some t \<Rightarrow> (Inr (response_with 200 [(''Table'', PDict [(''TableName'', PStr n)])]), w))"

definition client_create_table :: "string \<Rightarrow> string \<Rightarrow> pydict remote" where
  "client_create_table n key =
     client_call (CreateTable n key) (\<lambda>w.
       case tables w n of
         Some t \<Rightarrow> (Inl (ClientError ''ResourceInUseException''), w)
       | None \<Rightarrow>
           (Inr (response_with 200 []),
            w\<lparr>tables := (tables w)(n \<mapsto>
                 \<lparr>hash_key = key, active = False, items = Map.empty\<rparr>)\<rparr>))"

definition client_wait_table_exists :: "string \<Rightarrow> pydict remote" where
  "client_wait_table_exists n =
     client_call (WaitTableExists n) (\<lambda>w.
       case tables w n of
         None \<Rightarrow> (Inl (OtherError ''WaiterError''), w)
       | Some t \<Rightarrow> (Inr [], w\<lparr>tables := (tables w)(n \<mapsto> t\<lparr>active := True\<rparr>)\<rparr>))"

definition table_get_item :: "string \<Rightarrow> string \<Rightarrow> pydict remote" where
  "table_get_item n key =
     client_call (GetItem n key) (\<lambda>w.
       case tables w n of
         None \<Rightarrow> (Inl (ClientError ''ResourceNotFoundException''), w)
       | Some t \<Rightarrow>
           (case items t key of
              None \<Rightarrow> (Inr (response_with 200 []), w)
            | Some item \<Rightarrow> (Inr (response_with 200 [(''Item'', PDict item)]), w)))"

definition table_put_item :: "string \<Rightarrow> pydict \<Rightarrow> pydict remote" where
  "table_put_item n item =
     client_call (PutItem n item) (\<lambda>w.
       case tables w n of
         None \<Rightarrow> (Inl (ClientError ''ResourceNotFoundException''), w)
       | Some t \<Rightarrow>
           (case map_of item (hash_key t) of
              Some (PStr key) \<Rightarrow>
                (Inr (response_with 200 []),
                 w\<lparr>tables := (tables w)(n \<mapsto> t\<lparr>items := (items t)(key \<mapsto> item)\<rparr>)\<rparr>)
            | _ \<Rightarrow> (Inl (ClientError ''ValidationException''), w)))"

text \<open>
  What the environment is trusted with: a reply of its own making never looks like a
  success (status 200 or 204) and carries no tag set. Exceptions may be thrown at will.
\<close>

definition truthful :: "reply \<Rightarrow> bool" where
  "truthful rp =
     (case rp of
        Responds r \<Rightarrow>
          validate_aws (PDict r) 200 \<noteq> Inr True \<and> validate_aws (PDict r) 204 \<noteq> Inr True \<and>
          map_of r ''TagSet'' = None
      | _ \<Rightarrow> True)"

definition faultless :: "world \<Rightarrow> bool" where
  "faultless w = list_all (\<lambda>rp. rp = Served) (script w)"

definition next_served :: "world \<Rightarrow> bool" where
  "next_served w = (case script w of [] \<Rightarrow> True | rp # rest \<Rightarrow> rp = Served)"

text \<open>
  A call inside a \<open>try\<close> block followed by \<open>validate_aws\<close>: what reaches the
  \<open>except\<close> clauses is the exception of either.
\<close>

definition validated :: "exc + pydict \<Rightarrow> int \<Rightarrow> exc + pydict" where
  "validated r code =
     (case r of
        Inl e \<Rightarrow> Inl e
      | Inr response \<Rightarrow>
          (case validate_aws (PDict response) code of Inl e \<Rightarrow> Inl e | Inr ok \<Rightarrow> Inr response))"

text \<open>\<open>exception_error.__str__()\<close>; the text of a \<open>ClientError\<close> is cut down to its code.\<close>

fun exc_str :: "exc \<Rightarrow> string" where
  "exc_str (ValueError m) = m"
| "exc_str (ResponseError m) = m"
| "exc_str (ClientError c) = c"
| "exc_str (OtherError m) = m"
| "exc_str e = []"

section \<open>The bucket (aws\_bucket.py)\<close>

text \<open>
  Truth value and iteration of a Python value, as \<open>bucket_owned\<close> uses them on the
  tag set it received.
\<close>

fun truthy :: "pyval \<Rightarrow> bool" where
  "truthy PNone = False"
| "truthy (PBool b) = b"
| "truthy (PInt i) = (i \<noteq> 0)"
| "truthy (PStr s) = (s \<noteq> [])"
| "truthy (PList xs) = (xs \<noteq> [])"
| "truthy (PDict d) = (d \<noteq> [])"

fun py_iter :: "pyval \<Rightarrow> exc + pyval list" where
  "py_iter (PList xs) = Inr xs"
| "py_iter (PStr s) = Inr (map (\<lambda>c. PStr [c]) s)"
| "py_iter (PDict d) = Inr (map (\<lambda>kv. PStr (fst kv)) d)"
| "py_iter v = Inl TypeError"

text \<open>The filter of the list comprehension; \<open>tag.get\<close> needs a dictionary.\<close>

fun tag_matches :: "pyval \<Rightarrow> exc + bool" where
  "tag_matches (PDict t) =
     Inr (map_of t ''Key'' = Some (PStr ''managed_by'') \<and>
          map_of t ''Value'' = Some (PStr ''terraform-init''))"
| "tag_matches v = Inl AttributeError"

fun found_tags :: "pyval list \<Rightarrow> exc + pyval list" where
  "found_tags [] = Inr []"
| "found_tags (t # ts) =
     (case tag_matches t of
        Inl e \<Rightarrow> Inl e
      | Inr b \<Rightarrow>
          (case found_tags ts of
             Inl e \<Rightarrow> Inl e
           | Inr found \<Rightarrow> Inr (if b then t # found else found)))"

text \<open>
  The object: its name and the region read when it was built. What the methods print is
  not modelled. A method returns its result, or the way it failed, and the world it left.
\<close>

record s3bucket =
  bucket_name :: string
  region_name :: string

type_synonym 'a action = "world \<Rightarrow> (failure + 'a) \<times> world"

definition bucket_exit :: "s3bucket \<Rightarrow> string \<Rightarrow> failure" where
  "bucket_exit self message =
     SysExit (''E: bucket '' @ [CHR 0x22] @ bucket_name self @ [CHR 0x22] @ ''->'' @ message)"

definition bucket_exist :: "s3bucket \<Rightarrow> bool action" where
  "bucket_exist self w =
     (case client_head_bucket (bucket_name self) w of
        (response, w1) \<Rightarrow>
          (case validated response 200 of
             Inl (ClientError c) \<Rightarrow> (Inr False, w1)
           | Inl (ResponseError m) \<Rightarrow> (Inr False, w1)
           | Inl e \<Rightarrow> (Inl (Raised e), w1)
           | Inr ok \<Rightarrow> (Inr True, w1)))"

definition bucket_owned :: "s3bucket \<Rightarrow> bool action" where
  "bucket_owned self w =
     (case client_get_bucket_tagging (bucket_name self) w of
        (Inl (ClientError c), w1) \<Rightarrow> (Inr False, w1)
      | (Inl e, w1) \<Rightarrow> (Inl (Raised e), w1)
      | (Inr bucket_tagging, w1) \<Rightarrow>
          (let tags = (case map_of bucket_tagging ''TagSet'' of None \<Rightarrow> PNone | Some v \<Rightarrow> v)
           in if \<not> truthy tags then (Inr False, w1)
              else (case py_iter tags of
                      Inl e \<Rightarrow> (Inl (Raised e), w1)
                    | Inr ts \<Rightarrow>
                        (case found_tags ts of
                           Inl e \<Rightarrow> (Inl (Raised e), w1)
                         | Inr found \<Rightarrow> (Inr (length found = 1), w1)))))"

definition put_tagging_part :: "s3bucket \<Rightarrow> s3bucket action" where
  "put_tagging_part self w =
     (case client_put_bucket_tagging (bucket_name self)
             [(''managed_by'', ''terraform-init'')] w of
        (response, w1) \<Rightarrow>
          (case validated response 204 of
             Inl (ResponseError m) \<Rightarrow>
               (Inl (bucket_exit self (''ResponseError when creating bucket: '' @ m)), w1)
           | Inl e \<Rightarrow> (Inl (Raised e), w1)
           | Inr ok \<Rightarrow> (Inr self, w1)))"

definition create_bucket :: "s3bucket \<Rightarrow> s3bucket action" where
  "create_bucket self w =
     (case bucket_exist self w of
        (Inl f, w1) \<Rightarrow> (Inl f, w1)
      | (Inr exists, w1) \<Rightarrow>
          if exists then
            (case bucket_owned self w1 of
               (Inl f, w2) \<Rightarrow> (Inl f, w2)
             | (Inr owned, w2) \<Rightarrow>
                 if \<not> owned
                 then (Inl (bucket_exit self
                        ''bucket exist in our account, but is not managed by terraform-init''), w2)
                 else (Inr self, w2))
          else
            (case client_create_bucket (bucket_name self) (region_name self) w1 of
               (response, w2) \<Rightarrow>
                 (case validated response 200 of
                    Inl (ClientError c) \<Rightarrow>
                      if c = ''BucketAlreadyOwnedByYou'' then (Inr self, w2)
                      else if c = ''BucketAlreadyExists''
                      then (Inl (bucket_exit self ''BucketAlreadyExists, not owned by us.''), w2)
                      else (Inl (bucket_exit self
                             (''S3ResponseError when creating bucket: '' @ exc_str (ClientError c))), w2)
                  | Inl (ResponseError m) \<Rightarrow>
                      (Inl (bucket_exit self (''ResponseError when creating bucket: '' @ m)), w2)
                  | Inl e \<Rightarrow> (Inl (Raised e), w2)
                  | Inr ok \<Rightarrow> put_tagging_part self w2)))"

definition all_blocked :: access_block where
  "all_blocked =
     \<lparr>BlockPublicAcls = True, IgnorePublicAcls = True,
      BlockPublicPolicy = True, RestrictPublicBuckets = True\<rparr>"

definition enable_versioning_part :: "s3bucket \<Rightarrow> s3bucket action" where
  "enable_versioning_part self w =
     (case client_put_bucket_versioning (bucket_name self) True w of
        (response, w1) \<Rightarrow>
          (case validated response 200 of
             Inl (ResponseError m) \<Rightarrow>
               (Inl (bucket_exit self (''ResponseError when enabling versioning: '' @ m)), w1)
           | Inl e \<Rightarrow> (Inl (Raised e), w1)
           | Inr ok \<Rightarrow> (Inr self, w1)))"

definition tighten_policy :: "s3bucket \<Rightarrow> s3bucket action" where
  "tighten_policy self w =
     (case bucket_owned self w of
        (Inl f, w1) \<Rightarrow> (Inl f, w1)
      | (Inr owned, w1) \<Rightarrow>
          if \<not> owned
          then (Inl (bucket_exit self ''cant update policy, bucket is not managed by us.''), w1)
          else
            (case client_put_public_access_block (bucket_name self) all_blocked w1 of
               (response, w2) \<Rightarrow>
                 (case validated response 200 of
                    Inl (ResponseError m) \<Rightarrow>
                      (Inl (bucket_exit self (''ResponseError when tightening policy: '' @ m)), w2)
                  | Inl e \<Rightarrow> (Inl (Raised e), w2)
                  | Inr ok \<Rightarrow> enable_versioning_part self w2)))"

text \<open>\<open>self.create_bucket().tighten_policy()\<close>, the chain of the constructor.\<close>

definition create_and_secure :: "s3bucket \<Rightarrow> s3bucket action" where
  "create_and_secure self w =
     (case create_bucket self w of
        (Inl f, w1) \<Rightarrow> (Inl f, w1)
      | (Inr s, w1) \<Rightarrow> tighten_policy s w1)"

text \<open>
  \<open>S3Bucket.__init__\<close>. A name that passed the validation is a string; the last branch
  only completes the case distinction.
\<close>

definition S3Bucket :: "pyval \<Rightarrow> bool \<Rightarrow> s3bucket action" where
  "S3Bucket name auto_create w =
     (case validate_s3bucket_name name of
        Inl e \<Rightarrow> (Inl (Raised e), w)
      | Inr (is_valid, error_message) \<Rightarrow>
          if \<not> is_valid then (Inl (Raised (ValueError error_message)), w)
          else (case name of
                  PStr n \<Rightarrow>
                    (let self = \<lparr>bucket_name = n, region_name = region w\<rparr>
                     in if auto_create then create_and_secure self w else (Inr self, w))
                | _ \<Rightarrow> (Inl (Raised TypeError), w)))"

section \<open>The tables (aws\_table.py)\<close>

record dynamotable =
  tname :: string
  tregion :: string

definition table_exit :: "dynamotable \<Rightarrow> string \<Rightarrow> failure" where
  "table_exit self message =
     SysExit (''E: table '' @ [CHR 0x22] @ tname self @ [CHR 0x22] @ ''->'' @ message)"

text \<open>\<open>time_string\<close>: the clock in microseconds, as a decimal string.\<close>

definition time_string :: "world \<Rightarrow> string" where
  "time_string w = str_nat (clock w)"

definition describe_ok :: "string \<Rightarrow> bool action" where
  "describe_ok n w =
     (case client_describe_table n w of
        (response, w1) \<Rightarrow>
          (case validated response 200 of
             Inl (ClientError c) \<Rightarrow>
               if c = ''ResourceNotFoundException'' then (Inr False, w1)
               else (Inl (Raised (ClientError c)), w1)
           | Inl e \<Rightarrow> (Inl (Raised e), w1)
           | Inr ok \<Rightarrow> (Inr True, w1)))"

definition tables_exist :: "dynamotable \<Rightarrow> bool action" where
  "tables_exist self w =
     (case describe_ok (tname self @ ''.lock'') w of
        (Inl f, w1) \<Rightarrow> (Inl f, w1)
      | (Inr found, w1) \<Rightarrow>
          if \<not> found then (Inr False, w1)
          else describe_ok (tname self @ ''.s3'') w1)"

definition create_one :: "dynamotable \<Rightarrow> string \<Rightarrow> string \<Rightarrow> unit action" where
  "create_one self n key w =
     (case client_create_table n key w of
        (response, w1) \<Rightarrow>
          (case validated response 200 of
             Inl (ClientError c) \<Rightarrow>
               if c = ''ResourceInUseException'' then (Inr (), w1)
               else (Inl (Raised (ClientError c)), w1)
           | Inl (ResponseError m) \<Rightarrow>
               (Inl (table_exit self (''ResponseError when creating table: '' @ m)), w1)
           | Inl e \<Rightarrow> (Inl (Raised e), w1)
           | Inr ok \<Rightarrow> (Inr (), w1)))"

definition wait_one :: "string \<Rightarrow> unit action" where
  "wait_one n w =
     (case client_wait_table_exists n w of
        (Inl e, w1) \<Rightarrow> (Inl (Raised e), w1)
      | (Inr ok, w1) \<Rightarrow> (Inr (), w1))"

definition create_part :: "dynamotable \<Rightarrow> dynamotable action" where
  "create_part self w =
     (case create_one self (tname self @ ''.lock'') ''LockID'' w of
        (Inl f, w1) \<Rightarrow> (Inl f, w1)
      | (Inr u1, w1) \<Rightarrow>
          (case create_one self (tname self @ ''.s3'') ''GitURI'' w1 of
             (Inl f, w2) \<Rightarrow> (Inl f, w2)
           | (Inr u2, w2) \<Rightarrow>
               (case wait_one (tname self @ ''.lock'') w2 of
                  (Inl f, w3) \<Rightarrow> (Inl f, w3)
                | (Inr u3, w3) \<Rightarrow>
                    (case wait_one (tname self @ ''.s3'') w3 of
                       (Inl f, w4) \<Rightarrow> (Inl f, w4)
                     | (Inr u4, w4) \<Rightarrow> (Inr self, w4)))))"

definition create_tables :: "dynamotable \<Rightarrow> bool \<Rightarrow> dynamotable action" where
  "create_tables self check_exist w =
     (if check_exist then
        (case tables_exist self w of
           (Inl f, w1) \<Rightarrow> (Inl f, w1)
         | (Inr found, w1) \<Rightarrow> if found then (Inr self, w1) else create_part self w1)
      else create_part self w)"

text \<open>\<open>response['Item']['BucketName']\<close>, with the errors of the two subscripts.\<close>

definition item_bucket_name :: "pydict \<Rightarrow> exc + pyval" where
  "item_bucket_name response =
     (case map_of response ''Item'' of
        None \<Rightarrow> Inl KeyError
      | Some (PDict item) \<Rightarrow>
          (case map_of item ''BucketName'' of None \<Rightarrow> Inl KeyError | Some v \<Rightarrow> Inr v)
      | Some v \<Rightarrow> Inl TypeError)"

definition allocate_part :: "dynamotable \<Rightarrow> string \<Rightarrow> string option action" where
  "allocate_part self uri w =
     (let new_name = tname self @ ''-'' @ time_string w
      in case validate_s3bucket_name (PStr new_name) of
           Inl e \<Rightarrow> (Inl (Raised e), w)
         | Inr (is_valid, error_message) \<Rightarrow>
             if \<not> is_valid then (Inl (Raised (ValueError error_message)), w)
             else
               (case table_put_item (tname self @ ''.s3'')
                       [(''GitURI'', PStr uri), (''BucketName'', PStr new_name)] w of
                  (response, w1) \<Rightarrow>
                    (case validated response 200 of
                       Inl (ResponseError m) \<Rightarrow>
                         (Inl (table_exit self
                                (''ResponseError when putting Dynamo table item: '' @ m)), w1)
                     | Inl e \<Rightarrow> (Inl (Raised e), w1)
                     | Inr ok \<Rightarrow> (Inr (Some new_name), w1))))"

text \<open>
  \<open>lookup_s3\<close>. Its result is a name or \<open>None\<close>. The \<open>KeyError\<close> of a missing row,
  or the one raised for a stored value that is no string, falls through to the
  allocation.
\<close>

definition lookup_s3 :: "dynamotable \<Rightarrow> string \<Rightarrow> bool \<Rightarrow> string option action" where
  "lookup_s3 self uri auto_create w =
     (case table_get_item (tname self @ ''.s3'') uri w of
        (response, w1) \<Rightarrow>
          (let looked_up =
                 (case validated response 200 of
                    Inl e \<Rightarrow> Inl e
                  | Inr r \<Rightarrow>
                      (case item_bucket_name r of
                         Inl e \<Rightarrow> Inl e
                       | Inr (PStr v) \<Rightarrow> Inr v
                       | Inr v \<Rightarrow> Inl KeyError))
           in case looked_up of
                Inr v \<Rightarrow> (Inr (Some v), w1)
              | Inl KeyError \<Rightarrow>
                  if \<not> auto_create then (Inr None, w1) else allocate_part self uri w1
              | Inl (ResponseError m) \<Rightarrow>
                  (Inl (table_exit self
                         (''ResponseError when putting Dynamo table item: '' @ m)), w1)
              | Inl e \<Rightarrow> (Inl (Raised e), w1)))"

text \<open>\<open>DynamoTable.__init__\<close>.\<close>

definition DynamoTable :: "pyval \<Rightarrow> bool \<Rightarrow> dynamotable action" where
  "DynamoTable name auto_create w =
     (case validate_name_dynamotable name of
        Inl e \<Rightarrow> (Inl (Raised e), w)
      | Inr (is_valid, error_message) \<Rightarrow>
          if \<not> is_valid then (Inl (Raised (ValueError error_message)), w)
          else (case name of
                  PStr n \<Rightarrow>
                    (let self = \<lparr>tname = n, tregion = region w\<rparr>
                     in if auto_create then create_tables self True w else (Inr self, w))
                | _ \<Rightarrow> (Inl (Raised TypeError), w)))"

section \<open>States of a bucket that the claims speak of\<close>

definition ownership_tag :: "string \<times> string" where
  "ownership_tag = (''managed_by'', ''terraform-init'')"

text \<open>
  The bucket exists in the account, carries the tag of the tool, blocks all public access
  and keeps versions.
\<close>

definition provisioned :: "string \<Rightarrow> world \<Rightarrow> bool" where
  "provisioned n w =
     (case buckets w n of
        None \<Rightarrow> False
      | Some b \<Rightarrow>
          in_account b \<and> ownership_tag \<in> set (tagging b) \<and>
          public_access b = Some all_blocked \<and> versioning b)"

definition tightened :: "bucket \<Rightarrow> bucket" where
  "tightened b = b\<lparr>public_access := Some all_blocked, versioning := True\<rparr>"

definition not_found :: "exc + pydict \<Rightarrow> bool" where
  "not_found r = (r = Inl (ClientError ''ResourceNotFoundException''))"

section \<open>Example worlds\<close>

definition example_bucket :: s3bucket where
  "example_bucket = \<lparr>bucket_name = ''abc'', region_name = ''eu-west-1''\<rparr>"

definition fresh_world :: world where
  "fresh_world =
     \<lparr>buckets = Map.empty, tables = Map.empty, script = [], calls = [],
      region = ''eu-west-1'', clock = 1572818400000000\<rparr>"

text \<open>The bucket of an earlier run that stopped after tagging it.\<close>

definition owned_bucket :: bucket where
  "owned_bucket =
     \<lparr>in_account = True, location = ''eu-west-1'', tagging = [ownership_tag],
      public_access = None, versioning = False\<rparr>"

definition owned_world :: world where
  "owned_world = fresh_world\<lparr>buckets := [''abc'' \<mapsto> owned_bucket]\<rparr>"

definition example_table :: dynamotable where
  "example_table = \<lparr>tname = ''terraform.github.com.org.sub'', tregion = ''eu-west-1''\<rparr>"

definition example_row :: pydict where
  "example_row =
     [(''GitURI'', PStr ''github.com/org.sub/myrepo''),
      (''BucketName'', PStr ''terraform.github.com.org.sub-1572818400000000'')]"

text \<open>Both tables exist and the registry has a row for the repository.\<close>

definition registry_world :: world where
  "registry_world =
     fresh_world\<lparr>tables :=
       [''terraform.github.com.org.sub.lock'' \<mapsto>
          \<lparr>hash_key = ''LockID'', active = True, items = Map.empty\<rparr>,
        ''terraform.github.com.org.sub.s3'' \<mapsto>
          \<lparr>hash_key = ''GitURI'', active = True,
           items = [''github.com/org.sub/myrepo'' \<mapsto> example_row]\<rparr>]\<rparr>"

text \<open>A service that answers the next call with a status of 500.\<close>

definition failing_response :: pydict where
  "failing_response = [(''ResponseMetadata'', PDict [(''HTTPStatusCode'', PInt 500)])]"

definition failing_world :: world where
  "failing_world = registry_world\<lparr>script := [Responds failing_response]\<rparr>"

text \<open>No mutation lies between two worlds.\<close>

definition quiet :: "world \<Rightarrow> world \<Rightarrow> bool" where
  "quiet w w' =
     (buckets w' = buckets w \<and> tables w' = tables w \<and>
      filter mutating (calls w') = filter mutating (calls w))"

text \<open>The call ended by raising a \<open>ResponseError\<close> to its caller.\<close>

definition is_ResponseError_raised :: "failure + 'a \<Rightarrow> bool" where
  "is_ResponseError_raised r = (case r of Inl (Raised (ResponseError m)) \<Rightarrow> True | _ \<Rightarrow> False)"

definition failing_second_world :: world where
  "failing_second_world = registry_world\<lparr>script := [Served, Responds failing_response]\<rparr>"

section \<open>What the validators accept\<close>

text \<open>
  Two characters in a row that both satisfy \<open>P\<close>; and: all characters satisfy \<open>P\<close>,
  a newline at the very end apart.
\<close>

fun has_double :: "(char \<Rightarrow> bool) \<Rightarrow> string \<Rightarrow> bool" where
  "has_double P (x # y # r) = ((P x \<and> P y) \<or> has_double P (y # r))"
| "has_double P r = False"

definition upto_newline :: "(char \<Rightarrow> bool) \<Rightarrow> string \<Rightarrow> bool" where
  "upto_newline P s =
     (list_all P s \<or> (s \<noteq> [] \<and> last s = newline \<and> list_all P (butlast s)))"

definition accepted :: "exc + (bool \<times> string) \<Rightarrow> bool" where
  "accepted r = (case r of Inr (valid, reason) \<Rightarrow> valid | Inl e \<Rightarrow> False)"

section \<open>Properties of the name derivation and of the validators\<close>

text \<open>
  C1 (the code at the example of the specification). For the origin
  \<open>git@github.com:org/sub/myrepo.git\<close> and the branch \<open>main\<close>, \<open>source_git\<close>
  yields the repository name \<open>myrepo\<close>, but the colon between host and path is deleted
  by the pattern that removes the URI parts, so host and first path segment run together:
  the bucket URI is \<open>github.comorg/sub/myrepo\<close> and the table name
  \<open>terraform.github.comorg.sub\<close>, not the values with \<open>github.com/org.sub\<close> that the
  example expects.
\<close>

theorem source_git_scp_origin:
  "source_git (PDict [(''origin'', PStr ''git@github.com:org/sub/myrepo.git'')]) (PStr ''main'') =
     Inr \<lparr>repo_name = ''myrepo'', bucket_uri = ''github.comorg/sub/myrepo'',
          branch_name = ''main'', table_name = ''terraform.github.comorg.sub''\<rparr>"
  by code_simp

text \<open>
  The same repository addressed by its https URL gets the names the example gives: host
  and path are told apart on this path of the same function.
\<close>

lemma source_git_https_origin:
  "source_git (PDict [(''origin'', PStr ''https://github.com/org/sub/myrepo.git'')]) (PStr ''main'') =
     Inr \<lparr>repo_name = ''myrepo'', bucket_uri = ''github.com/org.sub/myrepo'',
          branch_name = ''main'', table_name = ''terraform.github.com.org.sub''\<rparr>"
  by code_simp

text \<open>
  C2 (the code at a failing input). The bucket name \<open>abc\<close> followed by a newline is
  accepted by \<open>validate_s3bucket_name\<close>, although the newline is none of the allowed
  characters: \<open>$\<close> in the last pattern also matches before a final newline.
\<close>

theorem validate_s3bucket_name_trailing_newline:
  "validate_s3bucket_name (PStr (''abc'' @ [newline])) = Inr (True, ''Success'') \<and>
   \<not> spec_bucket_name (''abc'' @ [newline])"
  by code_simp

text \<open>
  C3 (the code at a failing input). The table name \<open>abc\<close> followed by a newline is
  accepted by \<open>validate_name_dynamotable\<close>, for the same reason.
\<close>

theorem validate_name_dynamotable_trailing_newline:
  "validate_name_dynamotable (PStr (''abc'' @ [newline])) = Inr (True, ''Success'') \<and>
   \<not> spec_table_name (''abc'' @ [newline])"
  by code_simp

text \<open>
  C4, as the specification states it, fails: the contract is worded for every response
  value, but given \<open>None\<close> for the response \<open>validate_aws\<close> neither raises
  \<open>ResponseError\<close> nor returns \<open>True\<close>; asking \<open>None\<close> for the metadata field
  raises \<open>AttributeError\<close>.
\<close>

theorem validate_aws_raises_on_None:
  "validate_aws PNone 200 = Inl AttributeError \<and>
   \<not> is_ResponseError (validate_aws PNone 200) \<and>
   validate_aws PNone 200 \<noteq> Inr True"
  by (simp add: validate_aws_def is_ResponseError_def)

text \<open>The same holds of every value that is no dictionary.\<close>

lemma validate_aws_needs_dictionary:
  "\<forall>d. response \<noteq> PDict d \<Longrightarrow> validate_aws response e = Inl AttributeError"
  by (cases response) (auto simp: validate_aws_def)

text \<open>
  C4 (amended). For every response dictionary and expected status, \<open>validate_aws\<close> raises
  \<open>ResponseError\<close> exactly when the metadata field is absent or not a dictionary, or the
  status-code field is absent or not an integer, or the status code differs from the
  expected one; and it returns \<open>True\<close> exactly when none of these holds.
\<close>

theorem validate_aws_contract:
  "(is_ResponseError (validate_aws (PDict d) e) \<longleftrightarrow>
      (metadata_malformed d \<or> status_malformed d \<or> status_differs d e)) \<and>
   (validate_aws (PDict d) e = Inr True \<longleftrightarrow>
      \<not> (metadata_malformed d \<or> status_malformed d \<or> status_differs d e))"
  by (auto simp: validate_aws_def is_ResponseError_def metadata_malformed_def
        status_malformed_def status_differs_def status_field_def
      split: option.splits pyval.splits)

theorem validate_aws_contract_witness:
  "is_ResponseError
     (validate_aws (PDict [(''ResponseMetadata'', PDict [(''HTTPStatusCode'', PInt 404)])]) 200) \<and>
   status_differs [(''ResponseMetadata'', PDict [(''HTTPStatusCode'', PInt 404)])] 200 \<and>
   validate_aws (PDict [(''ResponseMetadata'', PDict [(''HTTPStatusCode'', PInt 200)])]) 200 =
     Inr True"
  using validate_aws_contract [of "[(''ResponseMetadata'', PDict [(''HTTPStatusCode'', PInt 404)])]" 200]
    validate_aws_contract [of "[(''ResponseMetadata'', PDict [(''HTTPStatusCode'', PInt 200)])]" 200]
  by (simp add: status_differs_def status_field_def metadata_malformed_def status_malformed_def)

text \<open>
  C9, as the specification states it, fails: given \<open>None\<close>, both validators raise
  \<open>AttributeError\<close> at the length test instead of returning a pair.
\<close>

theorem validators_raise_on_None:
  "validate_s3bucket_name PNone = Inl AttributeError \<and>
   validate_name_dynamotable PNone = Inl AttributeError"
  by (simp add: validate_s3bucket_name_def validate_name_dynamotable_def)

lemma validate_s3bucket_name_total:
  "\<exists>valid reason. validate_s3bucket_name (PStr s) = Inr (valid, reason)"
  by (auto simp: validate_s3bucket_name_def)

lemma validate_name_dynamotable_total:
  "\<exists>valid reason. validate_name_dynamotable (PStr s) = Inr (valid, reason)"
  by (auto simp: validate_name_dynamotable_def)

text \<open>
  C9 (amended). For every string, \<open>validate_s3bucket_name\<close> and
  \<open>validate_name_dynamotable\<close> return a pair of a boolean and a reason, and raise no
  exception.
\<close>

theorem validators_return_on_strings:
  "(\<exists>valid reason. validate_s3bucket_name (PStr s) = Inr (valid, reason)) \<and>
   (\<exists>valid reason. validate_name_dynamotable (PStr s) = Inr (valid, reason))"
  using validate_s3bucket_name_total validate_name_dynamotable_total by simp

theorem validators_return_on_strings_witness:
  "(\<exists>valid reason. validate_s3bucket_name (PStr ''My_Bucket'') = Inr (valid, reason)) \<and>
   (\<exists>valid reason. validate_name_dynamotable (PStr ''ab'') = Inr (valid, reason))"
  using validators_return_on_strings [of "''My_Bucket''"] validators_return_on_strings [of "''ab''"]
  by simp

section \<open>Facts about the remote calls\<close>

lemma issue_simps [simp]:
  "buckets (issue c w) = buckets w" "tables (issue c w) = tables w"
  "script (issue c w) = tl (script w)" "calls (issue c w) = calls w @ [c]"
  "region (issue c w) = region w" "clock (issue c w) = clock w"
  by (simp_all add: issue_def)

lemma truthful_tl: "list_all truthful xs \<Longrightarrow> list_all truthful (tl xs)"
  by (cases xs) auto

lemma validate_aws_Inr: "validate_aws r c = Inr b \<Longrightarrow> b"
  by (auto simp: validate_aws_def split: pyval.splits option.splits if_splits)

lemma validated_Inr:
  "validated r c = Inr x \<Longrightarrow> r = Inr x \<and> validate_aws (PDict x) c = Inr True"
  by (auto simp: validated_def split: sum.splits dest: validate_aws_Inr)

lemma validate_aws_not_ClientError: "validate_aws r c \<noteq> Inl (ClientError k)"
  by (auto simp: validate_aws_def split: pyval.splits option.splits if_splits)

lemma validated_ClientError:
  "validated r c = Inl (ClientError k) \<Longrightarrow> r = Inl (ClientError k)"
  by (auto simp: validated_def validate_aws_not_ClientError split: sum.splits)

text \<open>A call that came back as a validated success was served.\<close>
lemma success_served:
  assumes "list_all truthful (script w)" and "client_call c serve w = (Inr x, w')"
    and "validate_aws (PDict x) code = Inr True" and "code = 200 \<or> code = 204"
  shows "serve (issue c w) = (Inr x, w')"
  using assms
  by (auto simp: client_call_def truthful_def split: list.splits reply.splits)

lemma tagset_served:
  assumes "list_all truthful (script w)" and "client_call c serve w = (Inr r, w')"
    and "map_of r ''TagSet'' \<noteq> None"
  shows "serve (issue c w) = (Inr r, w')"
  using assms
  by (auto simp: client_call_def truthful_def split: list.splits reply.splits)

lemma found_tags_map:
  "found_tags (map tag_dict ts) = Inr (map tag_dict (filter (\<lambda>t. t = ownership_tag) ts))"
  by (induction ts) (auto simp: tag_dict_def ownership_tag_def)

lemma put_versioning_success:
  assumes "list_all truthful (script w)" and "client_put_bucket_versioning n v w = (r, w')"
    and "validated r 200 = Inr x"
  shows "\<exists>b. buckets w n = Some b \<and> in_account b \<and>
           w' = (issue (PutBucketVersioning n v) w)\<lparr>buckets := (buckets w)(n \<mapsto> b\<lparr>versioning := v\<rparr>)\<rparr>"
proof -
  from validated_Inr [OF assms(3)] have r: "r = Inr x" and ok: "validate_aws (PDict x) 200 = Inr True"
    by simp_all
  from success_served [OF assms(1) assms(2) [unfolded client_put_bucket_versioning_def r] ok]
  show ?thesis
    by (auto simp: on_bucket_def split: option.splits if_splits)
qed

lemma put_access_block_success:
  assumes "list_all truthful (script w)" and "client_put_public_access_block n cfg w = (r, w')"
    and "validated r 200 = Inr x"
  shows "\<exists>b. buckets w n = Some b \<and> in_account b \<and>
           w' = (issue (PutPublicAccessBlock n cfg) w)\<lparr>buckets := (buckets w)(n \<mapsto> b\<lparr>public_access := Some cfg\<rparr>)\<rparr>"
proof -
  from validated_Inr [OF assms(3)] have r: "r = Inr x" and ok: "validate_aws (PDict x) 200 = Inr True"
    by simp_all
  from success_served [OF assms(1) assms(2) [unfolded client_put_public_access_block_def r] ok]
  show ?thesis
    by (auto simp: on_bucket_def split: option.splits if_splits)
qed

lemma get_tagging_served:
  assumes "list_all truthful (script w)" and "client_get_bucket_tagging n w = (Inr r, w')"
    and "map_of r ''TagSet'' = Some v"
  shows "\<exists>b. buckets w n = Some b \<and> in_account b \<and> tagging b \<noteq> [] \<and>
           v = PList (map tag_dict (tagging b)) \<and> w' = issue (GetBucketTagging n) w"
proof -
  have "map_of r ''TagSet'' \<noteq> None" using assms(3) by simp
  from tagset_served [OF assms(1) assms(2) [unfolded client_get_bucket_tagging_def] this] assms(3)
  show ?thesis
    by (auto simp: on_bucket_def response_with_def split: option.splits if_splits)
qed

lemma bucket_owned_True:
  assumes "list_all truthful (script w)" and "bucket_owned self w = (Inr True, w')"
  shows "\<exists>b. buckets w (bucket_name self) = Some b \<and> in_account b \<and>
           length (filter (\<lambda>t. t = ownership_tag) (tagging b)) = 1 \<and>
           w' = issue (GetBucketTagging (bucket_name self)) w"
proof -
  obtain r w1 where call: "client_get_bucket_tagging (bucket_name self) w = (r, w1)"
    by (cases "client_get_bucket_tagging (bucket_name self) w")
  show ?thesis
  proof (cases r)
    case (Inl e)
    with assms(2) call show ?thesis
      by (auto simp: bucket_owned_def split: exc.splits)
  next
    case (Inr bt)
    show ?thesis
    proof (cases "map_of bt ''TagSet''")
      case None
      with assms(2) call Inr show ?thesis by (simp add: bucket_owned_def)
    next
      case (Some v)
      from get_tagging_served [OF assms(1) call [unfolded Inr] Some]
      obtain b where b: "buckets w (bucket_name self) = Some b" "in_account b"
        "v = PList (map tag_dict (tagging b))" "w1 = issue (GetBucketTagging (bucket_name self)) w"
        by blast
      from assms(2) call Inr Some b show ?thesis
        by (auto simp: bucket_owned_def found_tags_map split: if_splits)
    qed
  qed
qed

lemma enable_versioning_success:
  assumes "list_all truthful (script w)" and "enable_versioning_part self w = (Inr s, w')"
  shows "\<exists>b. buckets w (bucket_name self) = Some b \<and> in_account b \<and> s = self \<and>
           w' = (issue (PutBucketVersioning (bucket_name self) True) w)
                  \<lparr>buckets := (buckets w)(bucket_name self \<mapsto> b\<lparr>versioning := True\<rparr>)\<rparr>"
proof -
  obtain r w1 where call: "client_put_bucket_versioning (bucket_name self) True w = (r, w1)"
    by (cases "client_put_bucket_versioning (bucket_name self) True w")
  show ?thesis
  proof (cases "validated r 200")
    case (Inl e)
    with assms(2) call show ?thesis
      by (auto simp: enable_versioning_part_def split: exc.splits)
  next
    case (Inr x)
    from put_versioning_success [OF assms(1) call Inr] assms(2) call Inr show ?thesis
      by (auto simp: enable_versioning_part_def)
  qed
qed

lemma tighten_policy_success:
  assumes "list_all truthful (script w)" and "tighten_policy self w = (Inr s, w')"
  shows "\<exists>b. buckets w (bucket_name self) = Some b \<and> in_account b \<and>
           length (filter (\<lambda>t. t = ownership_tag) (tagging b)) = 1 \<and> s = self \<and>
           buckets w' = (buckets w)(bucket_name self \<mapsto> tightened b) \<and>
           tables w' = tables w \<and>
           calls w' = calls w @ [GetBucketTagging (bucket_name self),
                                 PutPublicAccessBlock (bucket_name self) all_blocked,
                                 PutBucketVersioning (bucket_name self) True]"
proof -
  let ?n = "bucket_name self"
  obtain ow w1 where own: "bucket_owned self w = (ow, w1)"
    by (cases "bucket_owned self w")
  from assms(2) own have ow: "ow = Inr True"
    by (auto simp: tighten_policy_def split: sum.splits if_splits)
  from bucket_owned_True [OF assms(1) own [unfolded ow]]
  obtain b where b: "buckets w ?n = Some b" "in_account b"
      "length (filter (\<lambda>t. t = ownership_tag) (tagging b)) = 1"
      "w1 = issue (GetBucketTagging ?n) w"
    by blast
  have t1: "list_all truthful (script w1)"
    using assms(1) b(4) by (simp add: truthful_tl)
  obtain r w2 where call: "client_put_public_access_block ?n all_blocked w1 = (r, w2)"
    by (cases "client_put_public_access_block ?n all_blocked w1")
  from assms(2) own ow call obtain x where v: "validated r 200 = Inr x"
    and rest: "enable_versioning_part self w2 = (Inr s, w')"
    by (auto simp: tighten_policy_def split: sum.splits exc.splits)
  from put_access_block_success [OF t1 call v] b
  have w2: "w2 = (issue (PutPublicAccessBlock ?n all_blocked) w1)
                   \<lparr>buckets := (buckets w1)(?n \<mapsto> b\<lparr>public_access := Some all_blocked\<rparr>)\<rparr>"
    by auto
  have t2: "list_all truthful (script w2)"
    using t1 w2 by (simp add: truthful_tl)
  from enable_versioning_success [OF t2 rest] w2 b
  show ?thesis
    by (auto simp: tightened_def)
qed

lemma truthful_drop: "list_all truthful xs \<Longrightarrow> list_all truthful (drop k xs)"
  by (metis append_take_drop_id list_all_append)

text \<open>The probes leave the world as it was, but for the log and the script.\<close>

lemma head_bucket_frame: "client_head_bucket n w = (r, w') \<Longrightarrow> w' = issue (HeadBucket n) w"
  by (auto simp: client_head_bucket_def client_call_def
      split: list.splits reply.splits option.splits if_splits)

lemma get_bucket_tagging_frame:
  "client_get_bucket_tagging n w = (r, w') \<Longrightarrow> w' = issue (GetBucketTagging n) w"
  by (auto simp: client_get_bucket_tagging_def client_call_def on_bucket_def
      split: list.splits reply.splits option.splits if_splits)

lemma describe_table_frame:
  "client_describe_table n w = (r, w') \<Longrightarrow> w' = issue (DescribeTable n) w"
  by (auto simp: client_describe_table_def client_call_def
      split: list.splits reply.splits option.splits if_splits)

lemma get_item_frame: "table_get_item n k w = (r, w') \<Longrightarrow> w' = issue (GetItem n k) w"
  by (auto simp: table_get_item_def client_call_def
      split: list.splits reply.splits option.splits if_splits)

lemma bucket_exist_frame: "bucket_exist self w = (r, w') \<Longrightarrow> w' = issue (HeadBucket (bucket_name self)) w"
  by (auto simp: bucket_exist_def split: prod.splits sum.splits exc.splits dest: head_bucket_frame)

lemma bucket_owned_frame:
  "bucket_owned self w = (r, w') \<Longrightarrow> w' = issue (GetBucketTagging (bucket_name self)) w"
  by (auto simp: bucket_owned_def Let_def
      split: prod.splits sum.splits exc.splits if_splits dest: get_bucket_tagging_frame)

text \<open>Every call consumes one reply.\<close>

lemma create_bucket_call_script:
  "client_create_bucket n loc w = (r, w') \<Longrightarrow> script w' = tl (script w)"
  by (auto simp: client_create_bucket_def client_call_def
      split: list.splits reply.splits option.splits if_splits)

lemma put_bucket_tagging_script:
  "client_put_bucket_tagging n ts w = (r, w') \<Longrightarrow> script w' = tl (script w)"
  by (auto simp: client_put_bucket_tagging_def client_call_def on_bucket_def
      split: list.splits reply.splits option.splits if_splits)

lemma put_tagging_part_script:
  "put_tagging_part self w = (r, w') \<Longrightarrow> script w' = tl (script w)"
  by (auto simp: put_tagging_part_def split: prod.splits sum.splits exc.splits
      dest: put_bucket_tagging_script)

lemma create_bucket_truthful:
  assumes "list_all truthful (script w)" and "create_bucket self w = (r, w')"
  shows "list_all truthful (script w')"
proof -
  obtain e w1 where ex: "bucket_exist self w = (e, w1)" by (cases "bucket_exist self w")
  have t1: "list_all truthful (script w1)"
    using bucket_exist_frame [OF ex] assms(1) by (simp add: truthful_tl)
  obtain ow w2 where own: "bucket_owned self w1 = (ow, w2)" by (cases "bucket_owned self w1")
  have t2: "list_all truthful (script w2)"
    using bucket_owned_frame [OF own] t1 by (simp add: truthful_tl)
  obtain c w3 where cr: "client_create_bucket (bucket_name self) (region_name self) w1 = (c, w3)"
    by (cases "client_create_bucket (bucket_name self) (region_name self) w1")
  have t3: "list_all truthful (script w3)"
    using create_bucket_call_script [OF cr] t1 by (simp add: truthful_tl)
  obtain p w4 where pt: "put_tagging_part self w3 = (p, w4)" by (cases "put_tagging_part self w3")
  have t4: "list_all truthful (script w4)"
    using put_tagging_part_script [OF pt] t3 by (simp add: truthful_tl)
  from assms(2) ex own cr pt t1 t2 t3 t4 show ?thesis
    by (auto simp: create_bucket_def split: sum.splits if_splits exc.splits)
qed

lemma create_bucket_self: "create_bucket self w = (Inr s, w') \<Longrightarrow> s = self"
  by (auto simp: create_bucket_def put_tagging_part_def
      split: prod.splits sum.splits if_splits exc.splits)

lemmas s3_defs =
  client_call_def issue_def response_with_def on_bucket_def client_head_bucket_def tag_dict_def
  client_get_bucket_tagging_def client_create_bucket_def client_put_bucket_tagging_def
  client_put_public_access_block_def client_put_bucket_versioning_def validated_def
  validate_aws_def bucket_exist_def bucket_owned_def put_tagging_part_def create_bucket_def
  enable_versioning_part_def tighten_policy_def create_and_secure_def

lemmas example_defs = example_bucket_def fresh_world_def owned_world_def owned_bucket_def
  ownership_tag_def

section \<open>Properties of the bucket provisioning\<close>

text \<open>
  C5. From every initial world, with an environment that never fakes a success: whenever
  \<open>create_bucket\<close> followed by \<open>tighten_policy\<close> returns, the bucket exists in the
  account, carries the tag \<open>managed_by = terraform-init\<close>, has all four
  public-access-block flags set and has versioning enabled. The statement does not ask
  whether this run created the bucket or found it; the witness runs both cases.
\<close>

theorem bucket_provisioning_secures:
  assumes "list_all truthful (script w)" and "create_and_secure self w = (Inr s, w')"
  shows "provisioned (bucket_name self) w'"
proof -
  obtain r w1 where cr: "create_bucket self w = (r, w1)" by (cases "create_bucket self w")
  from assms(2) cr obtain s1 where r: "r = Inr s1" and tp: "tighten_policy s1 w1 = (Inr s, w')"
    by (auto simp: create_and_secure_def split: sum.splits)
  have s1: "s1 = self" using create_bucket_self cr r by blast
  have t1: "list_all truthful (script w1)" by (rule create_bucket_truthful [OF assms(1) cr])
  from tighten_policy_success [OF t1 tp [unfolded s1]]
  obtain b where b: "in_account b" "length (filter (\<lambda>t. t = ownership_tag) (tagging b)) = 1"
      "buckets w' = (buckets w1)(bucket_name self \<mapsto> tightened b)"
    by blast
  from b(2) have "filter (\<lambda>t. t = ownership_tag) (tagging b) \<noteq> []" by auto
  then have "ownership_tag \<in> set (tagging b)"
    by (simp add: filter_empty_conv)
  with b show ?thesis
    by (simp add: provisioned_def tightened_def)
qed

theorem bucket_provisioning_secures_witness:
  "list_all truthful (script fresh_world) \<and>
   fst (create_and_secure example_bucket fresh_world) = Inr example_bucket \<and>
   provisioned ''abc'' (snd (create_and_secure example_bucket fresh_world)) \<and>
   list_all truthful (script owned_world) \<and>
   fst (create_and_secure example_bucket owned_world) = Inr example_bucket \<and>
   provisioned ''abc'' (snd (create_and_secure example_bucket owned_world))"
proof -
  have t1: "list_all truthful (script fresh_world)" by (simp add: example_defs)
  have t2: "list_all truthful (script owned_world)" by (simp add: example_defs)
  have r1: "fst (create_and_secure example_bucket fresh_world) = Inr example_bucket"
    by (simp add: s3_defs example_defs)
  have r2: "fst (create_and_secure example_bucket owned_world) = Inr example_bucket"
    by (simp add: s3_defs example_defs)
  have n: "bucket_name example_bucket = ''abc''" by (simp add: example_bucket_def)
  have e1: "create_and_secure example_bucket fresh_world =
              (Inr example_bucket, snd (create_and_secure example_bucket fresh_world))"
    using r1 by (simp add: prod_eq_iff)
  have e2: "create_and_secure example_bucket owned_world =
              (Inr example_bucket, snd (create_and_secure example_bucket owned_world))"
    using r2 by (simp add: prod_eq_iff)
  have p1: "provisioned ''abc'' (snd (create_and_secure example_bucket fresh_world))"
    using bucket_provisioning_secures [OF t1 e1] n by simp
  have p2: "provisioned ''abc'' (snd (create_and_secure example_bucket owned_world))"
    using bucket_provisioning_secures [OF t2 e2] n by simp
  from t1 t2 r1 r2 p1 p2 show ?thesis by simp
qed

lemmas regex_defs =
  re_search_def re_match_def re_sub_def re_upper_def re_bucket_start_def re_bucket_double_def
  re_bucket_chars_def re_table_start_def re_table_double_def re_table_chars_def re_spaces_def
  Twice_def Plus_def in_class_def in_range_def newline_def

text \<open>
  C6, as the specification states it, fails. In a world where the bucket exists and is owned but an
  earlier run stopped before securing it, the constructor with \<open>auto_create = True\<close>
  returns the object, yet it has issued two mutations (\<open>put_public_access_block\<close>,
  \<open>put_bucket_versioning\<close>) and the bucket in the store is no longer the one it found.
\<close>

theorem constructor_mutates_owned_bucket:
  "fst (bucket_exist example_bucket owned_world) = Inr True \<and>
   fst (bucket_owned example_bucket owned_world) = Inr True \<and>
   fst (S3Bucket (PStr ''abc'') True owned_world) = Inr example_bucket \<and>
   buckets (snd (S3Bucket (PStr ''abc'') True owned_world)) ''abc'' \<noteq> buckets owned_world ''abc'' \<and>
   filter mutating (calls (snd (S3Bucket (PStr ''abc'') True owned_world))) =
     [PutPublicAccessBlock ''abc'' all_blocked, PutBucketVersioning ''abc'' True]"
proof -
  have v: "validate_s3bucket_name (PStr ''abc'') = Inr (True, ''Success'')"
    by (simp add: validate_s3bucket_name_def regex_defs)
  have c: "S3Bucket (PStr ''abc'') True owned_world = create_and_secure example_bucket owned_world"
    by (simp add: S3Bucket_def v example_defs)
  show ?thesis
    unfolding c by (simp add: s3_defs example_defs)
qed

text \<open>
  C6 (amended). When \<open>bucket_exist\<close> and \<open>bucket_owned\<close> both return true,
  \<open>create_bucket\<close> is a no-op returning \<open>self\<close>: it issues no mutation and leaves
  buckets and tables as they were. The chain of the constructor then still runs
  \<open>tighten_policy\<close>: when it returns, it returns \<open>self\<close>, the only mutations issued
  are \<open>put_public_access_block\<close> and \<open>put_bucket_versioning\<close> on this bucket, and the
  store differs from the initial one at most in this bucket, whose four flags are now set
  and whose versioning is enabled.
\<close>

theorem create_bucket_noop_when_owned:
  assumes "list_all truthful (script w)"
    and "bucket_exist self w = (Inr True, w1)" and "bucket_owned self w1 = (Inr True, w2)"
  shows "create_bucket self w = (Inr self, w2) \<and> buckets w2 = buckets w \<and> tables w2 = tables w \<and>
         filter mutating (calls w2) = filter mutating (calls w) \<and>
         (create_and_secure self w = (Inr s, w') \<longrightarrow>
            s = self \<and> tables w' = tables w \<and>
            (\<exists>b. buckets w (bucket_name self) = Some b \<and>
                 buckets w' = (buckets w)(bucket_name self \<mapsto> tightened b)) \<and>
            filter mutating (calls w') =
              filter mutating (calls w) @
                [PutPublicAccessBlock (bucket_name self) all_blocked,
                 PutBucketVersioning (bucket_name self) True])"
proof -
  have cb: "create_bucket self w = (Inr self, w2)"
    using assms(2,3) by (simp add: create_bucket_def)
  have w1: "w1 = issue (HeadBucket (bucket_name self)) w" by (rule bucket_exist_frame [OF assms(2)])
  have w2: "w2 = issue (GetBucketTagging (bucket_name self)) w1" by (rule bucket_owned_frame [OF assms(3)])
  have fr: "buckets w2 = buckets w" "tables w2 = tables w"
      "filter mutating (calls w2) = filter mutating (calls w)"
    using w1 w2 by simp_all
  have t2: "list_all truthful (script w2)"
    using assms(1) w1 w2 by (simp add: truthful_tl)
  have rest: "s = self \<and> tables w' = tables w \<and>
            (\<exists>b. buckets w (bucket_name self) = Some b \<and>
                 buckets w' = (buckets w)(bucket_name self \<mapsto> tightened b)) \<and>
            filter mutating (calls w') =
              filter mutating (calls w) @
                [PutPublicAccessBlock (bucket_name self) all_blocked,
                 PutBucketVersioning (bucket_name self) True]"
    if run: "create_and_secure self w = (Inr s, w')"
  proof -
    from run cb have tp: "tighten_policy self w2 = (Inr s, w')"
      by (simp add: create_and_secure_def)
    from tighten_policy_success [OF t2 tp] fr show ?thesis
      by auto
  qed
  from cb fr rest show ?thesis by blast
qed

theorem create_bucket_noop_when_owned_witness:
  "list_all truthful (script owned_world) \<and>
   fst (bucket_exist example_bucket owned_world) = Inr True \<and>
   fst (bucket_owned example_bucket (snd (bucket_exist example_bucket owned_world))) = Inr True \<and>
   fst (create_bucket example_bucket owned_world) = Inr example_bucket \<and>
   buckets (snd (create_bucket example_bucket owned_world)) = buckets owned_world \<and>
   fst (create_and_secure example_bucket owned_world) = Inr example_bucket \<and>
   buckets (snd (create_and_secure example_bucket owned_world)) =
     (buckets owned_world)(''abc'' \<mapsto> tightened owned_bucket)"
proof -
  let ?w1 = "snd (bucket_exist example_bucket owned_world)"
  let ?w2 = "snd (bucket_owned example_bucket ?w1)"
  let ?w' = "snd (create_and_secure example_bucket owned_world)"
  have t: "list_all truthful (script owned_world)" by (simp add: example_defs)
  have e: "fst (bucket_exist example_bucket owned_world) = Inr True"
    by (simp add: s3_defs example_defs)
  have o: "fst (bucket_owned example_bucket ?w1) = Inr True"
    by (simp add: s3_defs example_defs)
  have r: "fst (create_and_secure example_bucket owned_world) = Inr example_bucket"
    by (simp add: s3_defs example_defs)
  have e': "bucket_exist example_bucket owned_world = (Inr True, ?w1)"
    using e by (simp add: prod_eq_iff)
  have o': "bucket_owned example_bucket ?w1 = (Inr True, ?w2)"
    using o by (simp add: prod_eq_iff)
  have r': "create_and_secure example_bucket owned_world = (Inr example_bucket, ?w')"
    using r by (simp add: prod_eq_iff)
  have b: "buckets owned_world ''abc'' = Some owned_bucket" by (simp add: example_defs)
  have n: "bucket_name example_bucket = ''abc''" by (simp add: example_bucket_def)
  from create_bucket_noop_when_owned [OF t e' o', of example_bucket ?w'] r' b n
  have "create_bucket example_bucket owned_world = (Inr example_bucket, ?w2)"
    and "buckets ?w2 = buckets owned_world"
    and "buckets ?w' = (buckets owned_world)(''abc'' \<mapsto> tightened owned_bucket)"
    by auto
  with t e o r show ?thesis by simp
qed

lemma served_call: "next_served w \<Longrightarrow> client_call c serve w = serve (issue c w)"
  by (auto simp: client_call_def next_served_def split: list.splits reply.splits)

lemma validate_aws_response_with [simp]:
  "validate_aws (PDict (response_with code rest)) code = Inr True"
  by (simp add: validate_aws_def response_with_def)

lemma validated_response_with [simp]:
  "validated (Inr (response_with code rest)) code = Inr (response_with code rest)"
  by (simp add: validated_def)

lemma item_of_response [simp]:
  "item_bucket_name (response_with code [(''Item'', PDict item)]) =
     (case map_of item ''BucketName'' of None \<Rightarrow> Inl KeyError | Some v \<Rightarrow> Inr v)"
  by (simp add: item_bucket_name_def response_with_def)

lemmas table_defs =
  client_describe_table_def client_create_table_def client_wait_table_exists_def
  table_get_item_def table_put_item_def describe_ok_def tables_exist_def create_one_def
  wait_one_def create_part_def create_tables_def item_bucket_name_def allocate_part_def
  lookup_s3_def time_string_def

lemmas table_example_defs = example_table_def example_row_def registry_world_def
  failing_response_def failing_world_def

section \<open>Properties of the tables\<close>

text \<open>
  C7. When the registry table has a row for the URI whose \<open>BucketName\<close> is a string and
  the service answers the read, \<open>lookup_s3\<close> with \<open>auto_create = True\<close> returns that
  name after the one \<open>get_item\<close> call: no write is issued, and buckets and tables are
  unchanged.
\<close>

theorem lookup_s3_returns_stored_name:
  assumes "next_served w"
    and "tables w (tname self @ ''.s3'') = Some t"
    and "items t uri = Some item"
    and "map_of item ''BucketName'' = Some (PStr name)"
  shows "lookup_s3 self uri True w = (Inr (Some name), issue (GetItem (tname self @ ''.s3'') uri) w) \<and>
         quiet w (issue (GetItem (tname self @ ''.s3'') uri) w)"
proof -
  have "table_get_item (tname self @ ''.s3'') uri w =
          (Inr (response_with 200 [(''Item'', PDict item)]), issue (GetItem (tname self @ ''.s3'') uri) w)"
    using assms(2,3) by (simp add: table_get_item_def served_call [OF assms(1)])
  then show ?thesis
    using assms(4) by (simp add: lookup_s3_def quiet_def)
qed

theorem lookup_s3_returns_stored_name_witness:
  "next_served registry_world \<and>
   fst (lookup_s3 example_table ''github.com/org.sub/myrepo'' True registry_world) =
     Inr (Some ''terraform.github.com.org.sub-1572818400000000'') \<and>
   tables (snd (lookup_s3 example_table ''github.com/org.sub/myrepo'' True registry_world)) =
     tables registry_world \<and>
   filter mutating (calls (snd (lookup_s3 example_table ''github.com/org.sub/myrepo'' True registry_world))) = []"
proof -
  have s: "next_served registry_world"
    by (simp add: next_served_def table_example_defs example_defs)
  have t: "tables registry_world (tname example_table @ ''.s3'') =
             Some \<lparr>hash_key = ''GitURI'', active = True,
                   items = [''github.com/org.sub/myrepo'' \<mapsto> example_row]\<rparr>"
    by (simp add: table_example_defs example_defs)
  have i: "items \<lparr>hash_key = ''GitURI'', active = True,
                   items = [''github.com/org.sub/myrepo'' \<mapsto> example_row]\<rparr>
             ''github.com/org.sub/myrepo'' = Some example_row"
    by simp
  have n: "map_of example_row ''BucketName'' =
             Some (PStr ''terraform.github.com.org.sub-1572818400000000'')"
    by (simp add: example_row_def)
  have c: "calls registry_world = []" by (simp add: table_example_defs example_defs)
  from lookup_s3_returns_stored_name [OF s t i n] s c show ?thesis
    by (simp add: quiet_def)
qed

lemma validate_aws_failure:
  "metadata_malformed r \<or> status_malformed r \<or> status_differs r code \<Longrightarrow>
     \<exists>m. validate_aws (PDict r) code = Inl (ResponseError m)"
  by (auto simp: validate_aws_def metadata_malformed_def status_malformed_def
        status_differs_def status_field_def
      split: option.splits pyval.splits)

lemma describe_ok_False:
  "describe_ok n w = (Inr False, w') \<Longrightarrow> not_found (fst (client_describe_table n w))"
  by (auto simp: describe_ok_def not_found_def
      split: prod.splits sum.splits exc.splits if_splits dest: validated_ClientError)

lemma describe_ok_frame: "describe_ok n w = (r, w') \<Longrightarrow> w' = issue (DescribeTable n) w"
  by (auto simp: describe_ok_def split: prod.splits sum.splits exc.splits if_splits
      dest: describe_table_frame)

lemma describe_ok_ResponseError:
  assumes "fst (client_describe_table n w) = Inr r"
    and "validate_aws (PDict r) 200 = Inl (ResponseError m)"
  shows "fst (describe_ok n w) = Inl (Raised (ResponseError m))"
  using assms by (cases "client_describe_table n w") (simp add: describe_ok_def validated_def)

lemma bucket_exist_ResponseError:
  assumes "fst (client_head_bucket (bucket_name self) w) = Inr r"
    and "validate_aws (PDict r) 200 = Inl (ResponseError m)"
  shows "fst (bucket_exist self w) = Inr False"
  using assms by (cases "client_head_bucket (bucket_name self) w") (simp add: bucket_exist_def validated_def)

text \<open>
  C10. \<open>tables_exist\<close> returns false only when the describe of the lock table or of the
  registry table reports that the table is not found. When a describe is answered by a
  response that is malformed or has a status other than 200, \<open>tables_exist\<close> ends by
  raising \<open>ResponseError\<close> to its caller; \<open>bucket_exist\<close>, given such a response by
  \<open>head_bucket\<close>, returns false instead.
\<close>

theorem tables_exist_error_handling:
  "(tables_exist self w = (Inr False, w') \<longrightarrow>
      not_found (fst (client_describe_table (tname self @ ''.lock'') w)) \<or>
      not_found (fst (client_describe_table (tname self @ ''.s3'')
                        (issue (DescribeTable (tname self @ ''.lock'')) w)))) \<and>
   (fst (client_describe_table (tname self @ ''.lock'') w) = Inr r \<and>
    (metadata_malformed r \<or> status_malformed r \<or> status_differs r 200) \<longrightarrow>
      is_ResponseError_raised (fst (tables_exist self w))) \<and>
   (describe_ok (tname self @ ''.lock'') w = (Inr True, w1) \<and>
    fst (client_describe_table (tname self @ ''.s3'') w1) = Inr r \<and>
    (metadata_malformed r \<or> status_malformed r \<or> status_differs r 200) \<longrightarrow>
      is_ResponseError_raised (fst (tables_exist self w))) \<and>
   (fst (client_head_bucket (bucket_name b) w) = Inr r \<and>
    (metadata_malformed r \<or> status_malformed r \<or> status_differs r 200) \<longrightarrow>
      fst (bucket_exist b w) = Inr False)"
proof -
  have a: "not_found (fst (client_describe_table (tname self @ ''.lock'') w)) \<or>
      not_found (fst (client_describe_table (tname self @ ''.s3'')
                        (issue (DescribeTable (tname self @ ''.lock'')) w)))"
    if f: "tables_exist self w = (Inr False, w')"
  proof -
    obtain x w2 where d: "describe_ok (tname self @ ''.lock'') w = (x, w2)"
      by (cases "describe_ok (tname self @ ''.lock'') w")
    have w2: "w2 = issue (DescribeTable (tname self @ ''.lock'')) w"
      by (rule describe_ok_frame [OF d])
    from f d have "x = Inr False \<or> (x = Inr True \<and> describe_ok (tname self @ ''.s3'') w2 = (Inr False, w'))"
      by (auto simp: tables_exist_def split: sum.splits if_splits)
    then show ?thesis
      using d w2 describe_ok_False by blast
  qed
  have b1: "is_ResponseError_raised (fst (tables_exist self w))"
    if "fst (client_describe_table (tname self @ ''.lock'') w) = Inr r"
      and "metadata_malformed r \<or> status_malformed r \<or> status_differs r 200"
  proof -
    from validate_aws_failure [OF that(2)] obtain m
      where "validate_aws (PDict r) 200 = Inl (ResponseError m)" by blast
    from describe_ok_ResponseError [OF that(1) this] show ?thesis
      by (cases "describe_ok (tname self @ ''.lock'') w")
         (simp add: tables_exist_def is_ResponseError_raised_def)
  qed
  have b2: "is_ResponseError_raised (fst (tables_exist self w))"
    if "describe_ok (tname self @ ''.lock'') w = (Inr True, w1)"
      and "fst (client_describe_table (tname self @ ''.s3'') w1) = Inr r"
      and "metadata_malformed r \<or> status_malformed r \<or> status_differs r 200"
  proof -
    from validate_aws_failure [OF that(3)] obtain m
      where "validate_aws (PDict r) 200 = Inl (ResponseError m)" by blast
    from describe_ok_ResponseError [OF that(2) this] that(1) show ?thesis
      by (simp add: tables_exist_def is_ResponseError_raised_def)
  qed
  have c: "fst (bucket_exist b w) = Inr False"
    if "fst (client_head_bucket (bucket_name b) w) = Inr r"
      and "metadata_malformed r \<or> status_malformed r \<or> status_differs r 200"
  proof -
    from validate_aws_failure [OF that(2)] obtain m
      where "validate_aws (PDict r) 200 = Inl (ResponseError m)" by blast
    from bucket_exist_ResponseError [OF that(1) this] show ?thesis .
  qed
  from a b1 b2 c show ?thesis by blast
qed

theorem tables_exist_error_handling_witness:
  "tables_exist example_table fresh_world =
     (Inr False, issue (DescribeTable (tname example_table @ ''.lock'')) fresh_world) \<and>
   (not_found (fst (client_describe_table (tname example_table @ ''.lock'') fresh_world)) \<or>
    not_found (fst (client_describe_table (tname example_table @ ''.s3'')
                      (issue (DescribeTable (tname example_table @ ''.lock'')) fresh_world)))) \<and>
   fst (client_describe_table (tname example_table @ ''.lock'') failing_world) = Inr failing_response \<and>
   status_differs failing_response 200 \<and>
   is_ResponseError_raised (fst (tables_exist example_table failing_world)) \<and>
   describe_ok (tname example_table @ ''.lock'') failing_second_world =
     (Inr True, issue (DescribeTable (tname example_table @ ''.lock'')) failing_second_world) \<and>
   fst (client_describe_table (tname example_table @ ''.s3'')
          (issue (DescribeTable (tname example_table @ ''.lock'')) failing_second_world)) =
     Inr failing_response \<and>
   is_ResponseError_raised (fst (tables_exist example_table failing_second_world)) \<and>
   fst (client_head_bucket (bucket_name example_bucket) failing_world) = Inr failing_response \<and>
   fst (bucket_exist example_bucket failing_world) = Inr False"
proof -
  let ?lock = "tname example_table @ ''.lock''"
  let ?s3 = "tname example_table @ ''.s3''"
  have a: "tables_exist example_table fresh_world = (Inr False, issue (DescribeTable ?lock) fresh_world)"
    by (simp add: table_defs s3_defs example_defs table_example_defs)
  have d: "status_differs failing_response 200"
    by (simp add: status_differs_def status_field_def failing_response_def)
  have b1: "fst (client_describe_table ?lock failing_world) = Inr failing_response"
    by (simp add: table_defs s3_defs example_defs table_example_defs)
  have b2: "describe_ok ?lock failing_second_world =
              (Inr True, issue (DescribeTable ?lock) failing_second_world)"
    by (simp add: table_defs s3_defs example_defs table_example_defs failing_second_world_def)
  have b3: "fst (client_describe_table ?s3 (issue (DescribeTable ?lock) failing_second_world)) =
              Inr failing_response"
    by (simp add: table_defs s3_defs example_defs table_example_defs failing_second_world_def)
  have c: "fst (client_head_bucket (bucket_name example_bucket) failing_world) = Inr failing_response"
    by (simp add: table_defs s3_defs example_defs table_example_defs)
  from tables_exist_error_handling [of example_table fresh_world
      "issue (DescribeTable ?lock) fresh_world" failing_response fresh_world example_bucket] a
  have ra: "not_found (fst (client_describe_table ?lock fresh_world)) \<or>
            not_found (fst (client_describe_table ?s3 (issue (DescribeTable ?lock) fresh_world)))"
    by blast
  from tables_exist_error_handling [of example_table failing_world
      failing_world failing_response failing_world example_bucket] b1 c d
  have rb: "is_ResponseError_raised (fst (tables_exist example_table failing_world))"
    and rc: "fst (bucket_exist example_bucket failing_world) = Inr False"
    by blast+
  from tables_exist_error_handling [of example_table failing_second_world
      failing_second_world failing_response "issue (DescribeTable ?lock) failing_second_world"
      example_bucket] b2 b3 d
  have rb2: "is_ResponseError_raised (fst (tables_exist example_table failing_second_world))"
    by blast
  from a ra b1 d rb b2 b3 rb2 c rc show ?thesis by blast
qed

lemma faultless_next: "faultless w \<Longrightarrow> next_served w"
  by (cases "script w") (auto simp: faultless_def next_served_def)

lemma faultless_issue: "faultless w \<Longrightarrow> faultless (issue c w)"
  by (cases "script w") (auto simp: faultless_def)

lemma faultless_tables_update [simp]: "faultless (w\<lparr>tables := x\<rparr>) = faultless w"
  by (simp add: faultless_def)

lemma quiet_refl [simp]: "quiet w w"
  by (simp add: quiet_def)

lemma quiet_trans: "quiet w w1 \<Longrightarrow> quiet w1 w2 \<Longrightarrow> quiet w w2"
  by (simp add: quiet_def)

lemma quiet_describe [simp]: "quiet w (issue (DescribeTable n) w)"
  by (simp add: quiet_def)

lemma validated_Inl [simp]: "validated (Inl e) c = Inl e"
  by (simp add: validated_def)

lemma describe_ok_faultless:
  assumes "faultless w"
  shows "describe_ok n w = (Inr (tables w n \<noteq> None), issue (DescribeTable n) w)"
  using served_call [OF faultless_next [OF assms]]
  by (auto simp: describe_ok_def client_describe_table_def split: option.splits)

lemma tables_exist_faultless:
  assumes "faultless w"
  shows "\<exists>w'. tables_exist self w =
            (Inr (tables w (tname self @ ''.lock'') \<noteq> None \<and> tables w (tname self @ ''.s3'') \<noteq> None), w')
          \<and> quiet w w' \<and> faultless w'"
proof -
  let ?w1 = "issue (DescribeTable (tname self @ ''.lock'')) w"
  have f1: "faultless ?w1" by (rule faultless_issue [OF assms])
  show ?thesis
    using describe_ok_faultless [OF assms, of "tname self @ ''.lock''"]
      describe_ok_faultless [OF f1, of "tname self @ ''.s3''"] f1 faultless_issue [OF f1]
    by (auto simp: tables_exist_def quiet_def)
qed

lemma create_one_faultless:
  assumes "faultless w"
  shows "\<exists>w'. create_one self n key w = (Inr (), w') \<and> tables w' n \<noteq> None \<and>
           (\<forall>m. tables w m \<noteq> None \<longrightarrow> tables w' m \<noteq> None) \<and> faultless w'"
  using served_call [OF faultless_next [OF assms]] faultless_issue [OF assms]
  by (auto simp: create_one_def client_create_table_def validated_def split: option.splits)

lemma wait_one_faultless:
  assumes "faultless w" and "tables w n \<noteq> None"
  shows "\<exists>w'. wait_one n w = (Inr (), w') \<and>
           (\<forall>m. tables w m \<noteq> None \<longrightarrow> tables w' m \<noteq> None) \<and> faultless w'"
  using served_call [OF faultless_next [OF assms(1)]] faultless_issue [OF assms(1)] assms(2)
  by (auto simp: wait_one_def client_wait_table_exists_def split: option.splits)

lemma create_part_faultless:
  assumes "faultless w"
  shows "\<exists>w'. create_part self w = (Inr self, w') \<and>
           tables w' (tname self @ ''.lock'') \<noteq> None \<and> tables w' (tname self @ ''.s3'') \<noteq> None \<and>
           faultless w'"
proof -
  let ?lock = "tname self @ ''.lock''" and ?s3 = "tname self @ ''.s3''"
  from create_one_faultless [OF assms, of self ?lock "''LockID''"]
  obtain w1 where 1: "create_one self ?lock ''LockID'' w = (Inr (), w1)" "tables w1 ?lock \<noteq> None"
      "faultless w1"
    by blast
  from create_one_faultless [OF 1(3), of self ?s3 "''GitURI''"] 1(2)
  obtain w2 where 2: "create_one self ?s3 ''GitURI'' w1 = (Inr (), w2)" "tables w2 ?s3 \<noteq> None"
      "tables w2 ?lock \<noteq> None" "faultless w2"
    by blast
  from wait_one_faultless [OF 2(4) 2(3)] 2(2) 2(3)
  obtain w3 where 3: "wait_one ?lock w2 = (Inr (), w3)" "tables w3 ?lock \<noteq> None"
      "tables w3 ?s3 \<noteq> None" "faultless w3"
    by blast
  from wait_one_faultless [OF 3(4) 3(3)] 3(2) 3(3)
  obtain w4 where 4: "wait_one ?s3 w3 = (Inr (), w4)" "tables w4 ?lock \<noteq> None"
      "tables w4 ?s3 \<noteq> None" "faultless w4"
    by blast
  from 1 2 3 4 show ?thesis
    by (simp add: create_part_def)
qed

text \<open>
  C8. Against a service that serves every call, \<open>create_tables\<close> with
  \<open>check_exist = True\<close> called twice in sequence returns the object both times, whatever
  the store held before; after the first call the lock table and the registry table
  exist, and the second call issues no mutation and leaves tables and buckets as the first
  call left them.
\<close>

theorem ensure_tables_idempotent:
  assumes "faultless w"
  shows "\<exists>w1 w2. create_tables self True w = (Inr self, w1) \<and>
           create_tables self True w1 = (Inr self, w2) \<and>
           tables w1 (tname self @ ''.lock'') \<noteq> None \<and> tables w1 (tname self @ ''.s3'') \<noteq> None \<and>
           quiet w1 w2"
proof -
  let ?lock = "tname self @ ''.lock''" and ?s3 = "tname self @ ''.s3''"
  from tables_exist_faultless [OF assms, of self]
  obtain w0 where 0: "tables_exist self w = (Inr (tables w ?lock \<noteq> None \<and> tables w ?s3 \<noteq> None), w0)"
      "quiet w w0" "faultless w0"
    by blast
  have "\<exists>w1. create_tables self True w = (Inr self, w1) \<and> tables w1 ?lock \<noteq> None \<and>
          tables w1 ?s3 \<noteq> None \<and> faultless w1"
  proof (cases "tables w ?lock \<noteq> None \<and> tables w ?s3 \<noteq> None")
    case True
    with 0 show ?thesis
      by (auto simp: create_tables_def quiet_def)
  next
    case False
    with 0 create_part_faultless [OF 0(3), of self] show ?thesis
      by (auto simp: create_tables_def)
  qed
  then obtain w1 where 1: "create_tables self True w = (Inr self, w1)" "tables w1 ?lock \<noteq> None"
      "tables w1 ?s3 \<noteq> None" "faultless w1"
    by blast
  from tables_exist_faultless [OF 1(4), of self] 1(2,3)
  obtain w2 where 2: "tables_exist self w1 = (Inr True, w2)" "quiet w1 w2"
    by auto
  then have "create_tables self True w1 = (Inr self, w2)"
    by (simp add: create_tables_def)
  with 1 2 show ?thesis by blast
qed

theorem ensure_tables_idempotent_witness:
  "faultless fresh_world \<and>
   (\<exists>w1 w2. create_tables example_table True fresh_world = (Inr example_table, w1) \<and>
       create_tables example_table True w1 = (Inr example_table, w2) \<and>
       tables w1 (tname example_table @ ''.lock'') \<noteq> None \<and>
       tables w1 (tname example_table @ ''.s3'') \<noteq> None \<and> quiet w1 w2)"
proof -
  have f: "faultless fresh_world" by (simp add: faultless_def fresh_world_def)
  from ensure_tables_idempotent [OF f, of example_table] f show ?thesis by blast
qed

section \<open>Facts about the patterns of the validators\<close>

lemma in_range_single [simp]: "in_range a a c \<longleftrightarrow> c = a"
  by (auto simp: in_range_def)

lemma search_class: "search_from (Class rs) n s \<longleftrightarrow> list_ex (in_class rs) s"
  by (induction s) auto

lemma re_search_class: "re_search (Class rs) s \<longleftrightarrow> \<not> list_all (\<lambda>c. \<not> in_class rs c) s"
  by (simp add: re_search_def search_class list_ex_iff list_all_iff)

lemma ends_bol_seq: "ends (Seq Bol r) (length s) s = ends r (length s) s"
  by (subst ends.simps) simp

lemma re_match_start: "re_match (Seq Bol (Class rs)) s \<longleftrightarrow> starts_with (in_class rs) s"
  by (cases s) (simp_all add: re_match_def starts_with_def)

lemma ends_twice_class:
  "ends (Twice (Class rs)) n s \<noteq> [] \<longleftrightarrow>
     (case s of x # y # r \<Rightarrow> in_class rs x \<and> in_class rs y | _ \<Rightarrow> False)"
  by (simp add: Twice_def split: list.splits)

lemma search_twice: "search_from (Twice (Class rs)) n s \<longleftrightarrow> has_double (in_class rs) s"
  by (induction "in_class rs" s rule: has_double.induct) (simp_all add: ends_twice_class)

lemma has_double_no_double:
  "(\<And>c. P c \<longleftrightarrow> c \<in> set cs) \<Longrightarrow> has_double P s \<longleftrightarrow> \<not> no_double_special cs s"
  by (induction cs s rule: no_double_special.induct) auto

lemma re_search_twice:
  "(\<And>c. in_class rs c \<longleftrightarrow> c \<in> set cs) \<Longrightarrow>
     re_search (Twice (Class rs)) s \<longleftrightarrow> \<not> no_double_special cs s"
  by (simp add: re_search_def search_twice has_double_no_double)

lemma upto_newline_Nil [simp]: "upto_newline P []"
  by (simp add: upto_newline_def)

lemma upto_newline_Cons:
  "upto_newline P (x # xs) \<longleftrightarrow> (P x \<and> upto_newline P xs) \<or> x # xs = [newline]"
  by (cases xs) (auto simp: upto_newline_def)

lemma ends_star_class_Nil: "ends (Star (Class rs)) n [] = [[]]"
  by (subst ends.simps) (simp del: ends.simps(8))

lemma ends_star_class_Cons:
  "ends (Star (Class rs)) n (x # xs) =
     (if in_class rs x then ends (Star (Class rs)) n xs else []) @ [x # xs]"
  by (subst ends.simps) (simp del: ends.simps(8))

lemma ends_seq: "ends (Seq a b) n s = concat (map (ends b n) (ends a n s))"
  by simp

lemma star_class_eol:
  "ends (Seq (Star (Class rs)) Eol) n s \<noteq> [] \<longleftrightarrow> upto_newline (in_class rs) s"
proof (induction s)
  case Nil
  show ?case by (simp add: ends_star_class_Nil del: ends.simps(8))
next
  case (Cons x xs)
  have "ends (Seq (Star (Class rs)) Eol) n (x # xs) =
          (if in_class rs x then ends (Seq (Star (Class rs)) Eol) n xs else []) @ ends Eol n (x # xs)"
    by (simp only: ends_seq ends_star_class_Cons) simp
  with Cons show ?case
    by (auto simp add: upto_newline_Cons simp del: ends.simps(6) ends.simps(8))
qed

lemma re_match_chars:
  "re_match (Seq Bol (Seq (Star (Class rs)) Eol)) s \<longleftrightarrow> upto_newline (in_class rs) s"
  by (simp only: re_match_def ends_bol_seq star_class_eol)

lemma class_upper: "in_class [(CHR ''A'', CHR ''Z'')] c \<longleftrightarrow> is_upper c"
  by (simp add: in_class_def is_upper_def)

lemma class_bucket_start:
  "in_class [(CHR ''a'', CHR ''z''), (CHR ''0'', CHR ''9'')] c \<longleftrightarrow> is_lower c \<or> is_digit c"
  by (simp add: in_class_def is_lower_def is_digit_def)

lemma class_bucket_special:
  "in_class [(CHR ''-'', CHR ''-''), (CHR ''.'', CHR ''.'')] c \<longleftrightarrow> c \<in> set ''-.''"
  by (auto simp: in_class_def)

lemma class_bucket_chars:
  "in_class [(CHR ''-'', CHR ''-''), (CHR ''a'', CHR ''z''), (CHR ''0'', CHR ''9''),
             (CHR ''.'', CHR ''.'')] = bucket_char"
  by (auto simp: in_class_def bucket_char_def is_lower_def is_digit_def fun_eq_iff)

lemma class_table_start:
  "in_class [(CHR ''a'', CHR ''z''), (CHR ''A'', CHR ''Z''), (CHR ''0'', CHR ''9'')] c \<longleftrightarrow>
     is_upper c \<or> is_lower c \<or> is_digit c"
  by (auto simp: in_class_def is_lower_def is_digit_def is_upper_def)

lemma class_table_special:
  "in_class [(CHR ''-'', CHR ''-''), (CHR ''.'', CHR ''.''), (CHR ''_'', CHR ''_'')] c \<longleftrightarrow>
     c \<in> set ''-._''"
  by (auto simp: in_class_def)

lemma class_table_chars:
  "in_class [(CHR ''-'', CHR ''-''), (CHR ''a'', CHR ''z''), (CHR ''A'', CHR ''Z''),
             (CHR ''0'', CHR ''9''), (CHR ''.'', CHR ''.''), (CHR ''_'', CHR ''_'')] = table_char"
  by (auto simp: in_class_def table_char_def is_lower_def is_digit_def is_upper_def fun_eq_iff)

lemma starts_with_cong: "(\<And>c. P c \<longleftrightarrow> Q c) \<Longrightarrow> starts_with P s \<longleftrightarrow> starts_with Q s"
  by (simp add: starts_with_def split: list.splits)

lemma bucket_upper: "re_search re_upper s \<longleftrightarrow> \<not> list_all (\<lambda>c. \<not> is_upper c) s"
  by (simp add: re_upper_def re_search_class class_upper)

lemma bucket_start: "re_match re_bucket_start s \<longleftrightarrow> starts_with (\<lambda>c. is_lower c \<or> is_digit c) s"
  unfolding re_bucket_start_def re_match_start
  by (rule starts_with_cong) (rule class_bucket_start)

lemma bucket_double: "re_search re_bucket_double s \<longleftrightarrow> \<not> no_double_special ''-.'' s"
  unfolding re_bucket_double_def
  by (rule re_search_twice) (rule class_bucket_special)

lemma bucket_chars: "re_match re_bucket_chars s \<longleftrightarrow> upto_newline bucket_char s"
  by (simp only: re_bucket_chars_def re_match_chars class_bucket_chars)

lemma table_start:
  "re_match re_table_start s \<longleftrightarrow> starts_with (\<lambda>c. is_upper c \<or> is_lower c \<or> is_digit c) s"
  unfolding re_table_start_def re_match_start
  by (rule starts_with_cong) (rule class_table_start)

lemma table_double: "re_search re_table_double s \<longleftrightarrow> \<not> no_double_special ''-._'' s"
  unfolding re_table_double_def
  by (rule re_search_twice) (rule class_table_special)

lemma table_chars: "re_match re_table_chars s \<longleftrightarrow> upto_newline table_char s"
  by (simp only: re_table_chars_def re_match_chars class_table_chars)

text \<open>What \<open>validate_s3bucket_name\<close> accepts.\<close>

lemma validate_s3bucket_name_accepts:
  "accepted (validate_s3bucket_name (PStr s)) \<longleftrightarrow>
     3 \<le> length s \<and> length s \<le> 63 \<and> list_all (\<lambda>c. \<not> is_upper c) s \<and>
     starts_with (\<lambda>c. is_lower c \<or> is_digit c) s \<and> no_double_special ''-.'' s \<and>
     upto_newline bucket_char s"
  by (auto simp: validate_s3bucket_name_def accepted_def bucket_upper bucket_start bucket_double
        bucket_chars)

lemma validate_name_dynamotable_accepts:
  "accepted (validate_name_dynamotable (PStr s)) \<longleftrightarrow>
     3 \<le> length s \<and> length s \<le> 250 \<and>
     starts_with (\<lambda>c. is_upper c \<or> is_lower c \<or> is_digit c) s \<and> no_double_special ''-._'' s \<and>
     upto_newline table_char s"
  by (auto simp: validate_name_dynamotable_def accepted_def table_start table_double table_chars)

lemma upto_newline_plain:
  "s = [] \<or> last s \<noteq> newline \<Longrightarrow> upto_newline P s \<longleftrightarrow> list_all P s"
  by (auto simp: upto_newline_def)

text \<open>Away from a final newline the validators decide the grammars of the specification.\<close>

lemma validate_s3bucket_name_no_final_newline:
  "s = [] \<or> last s \<noteq> newline \<Longrightarrow>
     accepted (validate_s3bucket_name (PStr s)) \<longleftrightarrow> spec_bucket_name s"
  by (simp add: validate_s3bucket_name_accepts spec_bucket_name_def upto_newline_plain)

lemma validate_name_dynamotable_no_final_newline:
  "s = [] \<or> last s \<noteq> newline \<Longrightarrow>
     accepted (validate_name_dynamotable (PStr s)) \<longleftrightarrow> spec_table_name s"
  by (simp add: validate_name_dynamotable_accepts spec_table_name_def upto_newline_plain)

lemma spec_bucket_name_accepted: "spec_bucket_name s \<Longrightarrow> accepted (validate_s3bucket_name (PStr s))"
  by (simp add: validate_s3bucket_name_accepts spec_bucket_name_def upto_newline_def)

lemma spec_table_name_accepted: "spec_table_name s \<Longrightarrow> accepted (validate_name_dynamotable (PStr s))"
  by (simp add: validate_name_dynamotable_accepts spec_table_name_def upto_newline_def)

end
